theory Spec2Isabelle
  imports Main
begin

section \<open>Values of the configuration document\<close>

text \<open>
  \<^verbatim>\<open>yaml.safe_load\<close> returns Python values: \<^verbatim>\<open>None\<close>, booleans, integers, floats,
  strings, lists and dictionaries. A finite float is kept exactly, as sign, mantissa and
  binary exponent (\<open>\<plusminus> m \<times> 2\<^sup>e\<close>); a dictionary is the list of its items, looked up with
  \<^const>\<open>map_of\<close> (the keys the daemon looks up are strings). A string is the list of
  the bytes of its UTF-8 encoding: equality and the substring test on the bytes are those
  on the code points.
\<close>

datatype pyfloat = FloatBin bool nat int | FloatInf bool | FloatNaN

datatype pyval =
    YNone
  | YBool bool
  | YInt int
  | YFloat pyfloat
  | YStr string
  | YList "pyval list"
  | YDict "(string \<times> pyval) list"

text \<open>\<^verbatim>\<open>decimal.Decimal\<close>: sign, coefficient and decimal exponent, or a special value.\<close>

datatype decimal = Dec bool nat int | DecInf bool | DecNaN

text \<open>
  The exceptions of the model: the built-in ones the daemon's own expressions raise, and
  \<open>CollaboratorError\<close> for an exception raised inside an external collaborator (adapter,
  coordinator, reserve monitor, file system).
\<close>

datatype py_error =
    KeyError string
  | TypeError
  | ValueError
  | AttributeError
  | InvalidOperation
  | OverflowError
  | CollaboratorError

text \<open>
  The library functions whose string grammar the daemon relies on are parameters:
  \<^verbatim>\<open>Decimal(s)\<close> and \<^verbatim>\<open>int(s)\<close> on a string (\<open>None\<close> where they raise),
  \<^verbatim>\<open>Decimal(str(f))\<close> on a float (the decimal that \<^verbatim>\<open>str\<close> prints; it never raises),
  \<^verbatim>\<open>str(v)\<close>, and the Unicode case mappings \<^verbatim>\<open>str.upper()\<close>, \<^verbatim>\<open>str.lower()\<close> and
  \<^verbatim>\<open>str.capitalize()\<close> on a string that has a character outside ASCII.
\<close>

record pylib =
  decimal_of_str :: "string \<Rightarrow> decimal option"
  decimal_of_float :: "pyfloat \<Rightarrow> decimal"
  int_of_str :: "string \<Rightarrow> int option"
  str_of :: "pyval \<Rightarrow> string"
  str_upper :: "string \<Rightarrow> string"
  str_lower :: "string \<Rightarrow> string"
  str_capitalize :: "string \<Rightarrow> string"

section \<open>Strings as the daemon uses them\<close>

text \<open>
  The daemon (\<^verbatim>\<open>run_grid_trading_daemon.py\<close>) compares exchange names and trading
  symbols after \<^verbatim>\<open>str.lower()\<close> / \<^verbatim>\<open>str.upper()\<close> and tests markers with the
  substring operator \<^verbatim>\<open>in\<close>. On a string of ASCII characters the case mappings change
  the 26 letters and nothing else; on a string with any other character they are Python's
  Unicode mappings, which the library record supplies.
\<close>

definition lower_letters :: string where
  "lower_letters = ''abcdefghijklmnopqrstuvwxyz''"

definition upper_letters :: string where
  "upper_letters = ''ABCDEFGHIJKLMNOPQRSTUVWXYZ''"

definition upper_char :: "char \<Rightarrow> char" where
  "upper_char c = (case map_of (zip lower_letters upper_letters) c of Some u \<Rightarrow> u | None \<Rightarrow> c)"

definition lower_char :: "char \<Rightarrow> char" where
  "lower_char c = (case map_of (zip upper_letters lower_letters) c of Some l \<Rightarrow> l | None \<Rightarrow> c)"

text \<open>A byte below 128 is an ASCII character; every byte of a longer UTF-8 sequence is above.\<close>

definition is_ascii :: "string \<Rightarrow> bool" where
  "is_ascii s = list_all (\<lambda>c. \<not> digit7 c) s"

definition upper :: "pylib \<Rightarrow> string \<Rightarrow> string" where
  "upper L s = (if is_ascii s then map upper_char s else str_upper L s)"

definition lower :: "pylib \<Rightarrow> string \<Rightarrow> string" where
  "lower L s = (if is_ascii s then map lower_char s else str_lower L s)"

text \<open>\<^verbatim>\<open>str.capitalize()\<close>: first character upper-cased, the rest lower-cased.\<close>

definition capitalize :: "pylib \<Rightarrow> string \<Rightarrow> string" where
  "capitalize L s =
     (if is_ascii s then (case s of [] \<Rightarrow> [] | c # cs \<Rightarrow> upper_char c # map lower_char cs)
      else str_capitalize L s)"

fun starts_with :: "string \<Rightarrow> string \<Rightarrow> bool" where
  "starts_with [] s = True"
| "starts_with (p # ps) [] = False"
| "starts_with (p # ps) (c # cs) = (p = c \<and> starts_with ps cs)"

text \<open>\<^verbatim>\<open>needle in hay\<close> on Python strings.\<close>

fun str_in :: "string \<Rightarrow> string \<Rightarrow> bool" where
  "str_in needle [] = (needle = [])"
| "str_in needle (c # cs) = (starts_with needle (c # cs) \<or> str_in needle cs)"

section \<open>Market-type resolver\<close>

text \<open>
  \<^verbatim>\<open>ExchangeType\<close> is imported from the adapters package; the daemon uses its two
  members \<^verbatim>\<open>SPOT\<close> and \<^verbatim>\<open>PERPETUAL\<close>.
\<close>

datatype ExchangeType = SPOT | PERPETUAL

definition detect_market_type :: "pylib \<Rightarrow> string \<Rightarrow> string \<Rightarrow> ExchangeType" where
  "detect_market_type L symbol exchange_name =
    (let symbol_upper = upper L symbol;
         exchange_lower = lower L exchange_name
     in if exchange_lower = ''hyperliquid'' then
          (if str_in '':USDC'' symbol_upper \<or> str_in '':PERP'' symbol_upper
                \<or> str_in '':SPOT'' symbol_upper
           then (if str_in '':SPOT'' symbol_upper then SPOT else PERPETUAL)
           else SPOT)
        else if exchange_lower = ''backpack'' then
          (if str_in ''_PERP'' symbol_upper \<or> str_in ''PERP'' symbol_upper then PERPETUAL
           else if str_in ''_SPOT'' symbol_upper \<or> str_in ''SPOT'' symbol_upper then SPOT
           else PERPETUAL)
        else if exchange_lower = ''lighter'' then PERPETUAL
        else PERPETUAL)"

section \<open>Operations on document values\<close>

text \<open>Python truthiness (\<^verbatim>\<open>bool(v)\<close>), as used by \<^verbatim>\<open>if v\<close>, \<^verbatim>\<open>not v\<close> and \<^verbatim>\<open>a or b\<close>.\<close>

fun truthy :: "pyval \<Rightarrow> bool" where
  "truthy YNone = False"
| "truthy (YBool b) = b"
| "truthy (YInt i) = (i \<noteq> 0)"
| "truthy (YFloat (FloatBin s m e)) = (m \<noteq> 0)"
| "truthy (YFloat (FloatInf s)) = True"
| "truthy (YFloat FloatNaN) = True"
| "truthy (YStr s) = (s \<noteq> [])"
| "truthy (YList xs) = (xs \<noteq> [])"
| "truthy (YDict kvs) = (kvs \<noteq> [])"

definition py_or :: "pyval \<Rightarrow> pyval \<Rightarrow> pyval" where
  "py_or a b = (if truthy a then a else b)"

text \<open>\<^verbatim>\<open>d[k]\<close> with a string key: only a dictionary can be subscripted by a string.\<close>

fun subscript :: "pyval \<Rightarrow> string \<Rightarrow> py_error + pyval" where
  "subscript (YDict kvs) k = (case map_of kvs k of None \<Rightarrow> Inl (KeyError k) | Some v \<Rightarrow> Inr v)"
| "subscript v k = Inl TypeError"

text \<open>\<^verbatim>\<open>d.get(k, default)\<close>: only a dictionary has the method.\<close>

fun dict_get :: "pyval \<Rightarrow> string \<Rightarrow> pyval \<Rightarrow> py_error + pyval" where
  "dict_get (YDict kvs) k d = Inr (case map_of kvs k of None \<Rightarrow> d | Some v \<Rightarrow> v)"
| "dict_get v k d = Inl AttributeError"

text \<open>The same two operations on the items of a value known to be a dictionary.\<close>

definition item :: "(string \<times> pyval) list \<Rightarrow> string \<Rightarrow> py_error + pyval" where
  "item kvs k = subscript (YDict kvs) k"

definition get_or :: "(string \<times> pyval) list \<Rightarrow> string \<Rightarrow> pyval \<Rightarrow> pyval" where
  "get_or kvs k d = (case map_of kvs k of None \<Rightarrow> d | Some v \<Rightarrow> v)"

definition and_then :: "'e + 'a \<Rightarrow> ('a \<Rightarrow> 'e + 'b) \<Rightarrow> 'e + 'b" where
  "and_then r f = (case r of Inl e \<Rightarrow> Inl e | Inr a \<Rightarrow> f a)"

text \<open>
  \<^verbatim>\<open>Decimal(str(v))\<close>. \<^verbatim>\<open>str\<close> of an integer is its decimal numeral, which
  \<^verbatim>\<open>Decimal\<close> reads exactly; \<^verbatim>\<open>str\<close> of \<^verbatim>\<open>None\<close>, of a boolean, of a list and of a
  dictionary (\<^verbatim>\<open>'None'\<close>, \<^verbatim>\<open>'True'\<close>, \<^verbatim>\<open>'[...]'\<close>, \<^verbatim>\<open>'{...}'\<close>) is no decimal
  literal and raises \<^verbatim>\<open>decimal.InvalidOperation\<close>.
\<close>

fun to_decimal :: "pylib \<Rightarrow> pyval \<Rightarrow> py_error + decimal" where
  "to_decimal L (YInt i) = Inr (Dec (i < 0) (nat \<bar>i\<bar>) 0)"
| "to_decimal L (YFloat f) = Inr (decimal_of_float L f)"
| "to_decimal L (YStr s) =
     (case decimal_of_str L s of None \<Rightarrow> Inl InvalidOperation | Some d \<Rightarrow> Inr d)"
| "to_decimal L v = Inl InvalidOperation"

text \<open>\<^verbatim>\<open>int(v)\<close>: truncation toward zero on a float.\<close>

fun to_int :: "pylib \<Rightarrow> pyval \<Rightarrow> py_error + int" where
  "to_int L (YInt i) = Inr i"
| "to_int L (YBool b) = Inr (if b then 1 else 0)"
| "to_int L (YFloat (FloatBin s m e)) =
     (let a = (if 0 \<le> e then int m * 2 ^ nat e else int m div 2 ^ nat (- e))
      in Inr (if s then - a else a))"
| "to_int L (YFloat (FloatInf s)) = Inl OverflowError"
| "to_int L (YFloat FloatNaN) = Inl ValueError"
| "to_int L (YStr s) = (case int_of_str L s of None \<Rightarrow> Inl ValueError | Some i \<Rightarrow> Inr i)"
| "to_int L v = Inl TypeError"

section \<open>Configuration translator\<close>

text \<open>
  Modelled from the spec: the enumeration \<^verbatim>\<open>GridType\<close> is imported from
  \<^verbatim>\<open>core.services.grid.models\<close>, which is not among the sources. Its six tags are the
  ones the specification lists; the daemon names the members \<^verbatim>\<open>FOLLOW_LONG\<close> and
  \<^verbatim>\<open>FOLLOW_SHORT\<close> and the values \<^verbatim>\<open>short\<close>, \<^verbatim>\<open>martingale_short\<close>,
  \<^verbatim>\<open>follow_short\<close>.
\<close>

datatype GridType = LONG | SHORT | MARTINGALE_LONG | MARTINGALE_SHORT | FOLLOW_LONG | FOLLOW_SHORT

fun GridType_value :: "GridType \<Rightarrow> string" where
  "GridType_value LONG = ''long''"
| "GridType_value SHORT = ''short''"
| "GridType_value MARTINGALE_LONG = ''martingale_long''"
| "GridType_value MARTINGALE_SHORT = ''martingale_short''"
| "GridType_value FOLLOW_LONG = ''follow_long''"
| "GridType_value FOLLOW_SHORT = ''follow_short''"

definition all_grid_types :: "GridType list" where
  "all_grid_types = [LONG, SHORT, MARTINGALE_LONG, MARTINGALE_SHORT, FOLLOW_LONG, FOLLOW_SHORT]"

text \<open>\<^verbatim>\<open>GridType(v)\<close>: lookup of an enumeration member by value; \<^verbatim>\<open>ValueError\<close> otherwise.\<close>

definition GridType_of_value :: "pyval \<Rightarrow> py_error + GridType" where
  "GridType_of_value v =
     (case v of
        YStr s \<Rightarrow> (case find (\<lambda>t. GridType_value t = s) all_grid_types of
                     None \<Rightarrow> Inl ValueError | Some t \<Rightarrow> Inr t)
      | _ \<Rightarrow> Inl ValueError)"

text \<open>
  The keyword dictionary \<^verbatim>\<open>params\<close> that \<^verbatim>\<open>create_grid_config\<close> fills and hands to
  \<^verbatim>\<open>GridConfig(**params)\<close>. A value is copied from the document as it is, or
  converted by \<^verbatim>\<open>Decimal(str(\<dots>))\<close>, \<^verbatim>\<open>int(\<dots>)\<close> or \<^verbatim>\<open>str(\<dots>)\<close>.
\<close>

datatype pval = PVal pyval | PDecimal decimal | PGridType GridType

type_synonym params = "string \<rightharpoonup> pval"

datatype conv = AsIs | AsDecimal | AsInt | AsStr

fun convert :: "pylib \<Rightarrow> conv \<Rightarrow> pyval \<Rightarrow> py_error + pval" where
  "convert L AsIs v = Inr (PVal v)"
| "convert L AsDecimal v = and_then (to_decimal L v) (\<lambda>d. Inr (PDecimal d))"
| "convert L AsInt v = and_then (to_int L v) (\<lambda>i. Inr (PVal (YInt i)))"
| "convert L AsStr v = Inr (PVal (YStr (str_of L v)))"

text \<open>
  The base parameters: the dictionary literal of the source, its entries evaluated in
  order, so the first failing entry decides the exception.
\<close>

definition base_params :: "pylib \<Rightarrow> (string \<times> pyval) list \<Rightarrow> GridType \<Rightarrow> py_error + params" where
  "base_params L gc grid_type =
     and_then (item gc ''exchange'') (\<lambda>exchange.
     and_then (item gc ''symbol'') (\<lambda>symbol.
     and_then (and_then (item gc ''grid_interval'') (to_decimal L)) (\<lambda>grid_interval.
     and_then (and_then (item gc ''order_amount'') (to_decimal L)) (\<lambda>order_amount.
     and_then (if truthy (get_or gc ''max_position'' YNone)
               then convert L AsDecimal (get_or gc ''max_position'' YNone)
               else Inr (PVal YNone)) (\<lambda>max_position.
     and_then (to_decimal L (get_or gc ''fee_rate'' (YStr ''0.0001''))) (\<lambda>fee_rate.
     and_then (to_int L (get_or gc ''quantity_precision'' (YInt 3))) (\<lambda>quantity_precision.
     and_then (to_int L (get_or gc ''price_decimals'' (YInt 2))) (\<lambda>price_decimals.
       Inr [''exchange'' \<mapsto> PVal exchange,
            ''symbol'' \<mapsto> PVal symbol,
            ''grid_type'' \<mapsto> PGridType grid_type,
            ''grid_interval'' \<mapsto> PDecimal grid_interval,
            ''order_amount'' \<mapsto> PDecimal order_amount,
            ''max_position'' \<mapsto> max_position,
            ''enable_notifications'' \<mapsto> PVal (get_or gc ''enable_notifications'' (YBool False)),
            ''order_health_check_enabled'' \<mapsto>
               PVal (get_or gc ''order_health_check_enabled'' (YBool True)),
            ''order_health_check_interval'' \<mapsto>
               PVal (get_or gc ''order_health_check_interval'' (YInt 600)),
            ''rest_position_query_interval'' \<mapsto>
               PVal (get_or gc ''rest_position_query_interval'' (YInt 1)),
            ''fee_rate'' \<mapsto> PDecimal fee_rate,
            ''quantity_precision'' \<mapsto> PVal (YInt quantity_precision),
            ''price_decimals'' \<mapsto> PVal (YInt price_decimals)]))))))))"

definition is_follow :: "GridType \<Rightarrow> bool" where
  "is_follow t = (t = FOLLOW_LONG \<or> t = FOLLOW_SHORT)"

text \<open>The follow-grid parameters, or else the price range.\<close>

definition range_params ::
  "pylib \<Rightarrow> (string \<times> pyval) list \<Rightarrow> GridType \<Rightarrow> params \<Rightarrow> py_error + params" where
  "range_params L gc grid_type params =
     (if is_follow grid_type then
        and_then (item gc ''follow_grid_count'') (\<lambda>follow_grid_count.
          Inr (params(''follow_grid_count'' \<mapsto> PVal follow_grid_count,
                      ''follow_timeout'' \<mapsto> PVal (get_or gc ''follow_timeout'' (YInt 300)),
                      ''follow_distance'' \<mapsto> PVal (get_or gc ''follow_distance'' (YInt 1)),
                      ''price_offset_grids'' \<mapsto> PVal (get_or gc ''price_offset_grids'' (YInt 0)))))
      else
        and_then (and_then (and_then (item gc ''price_range'') (\<lambda>r. subscript r ''lower_price''))
                    (to_decimal L)) (\<lambda>lower_price.
        and_then (and_then (and_then (item gc ''price_range'') (\<lambda>r. subscript r ''upper_price''))
                    (to_decimal L)) (\<lambda>upper_price.
          Inr (params(''lower_price'' \<mapsto> PDecimal lower_price,
                      ''upper_price'' \<mapsto> PDecimal upper_price)))))"

text \<open>
  The optional feature fields, in the order of the source: each is copied, with its
  conversion, only \<^verbatim>\<open>if key in grid_config\<close>.
\<close>

definition optional_fields :: "(string \<times> conv) list" where
  "optional_fields =
    [(''martingale_increment'', AsDecimal),
     (''scalping_enabled'', AsIs),
     (''scalping_trigger_percent'', AsIs),
     (''scalping_take_profit_grids'', AsIs),
     (''smart_scalping_enabled'', AsIs),
     (''allowed_deep_drops'', AsIs),
     (''min_drop_threshold_percent'', AsIs),
     (''capital_protection_enabled'', AsIs),
     (''capital_protection_trigger_percent'', AsIs),
     (''take_profit_enabled'', AsIs),
     (''take_profit_percentage'', AsDecimal),
     (''price_lock_enabled'', AsIs),
     (''price_lock_threshold'', AsDecimal),
     (''price_lock_start_at_threshold'', AsIs),
     (''reverse_order_grid_distance'', AsInt),
     (''stop_loss_protection_enabled'', AsIs),
     (''stop_loss_trigger_percent'', AsDecimal),
     (''stop_loss_escape_timeout'', AsInt),
     (''stop_loss_apr_threshold'', AsDecimal),
     (''exit_cleanup_enabled'', AsIs),
     (''margin_mode'', AsStr),
     (''leverage'', AsInt),
     (''spot_reserve'', AsIs),
     (''position_tolerance'', AsIs),
     (''health_check_snapshot_count'', AsInt)]"

fun copy_optional ::
  "pylib \<Rightarrow> (string \<times> pyval) list \<Rightarrow> (string \<times> conv) list \<Rightarrow> params \<Rightarrow> py_error + params" where
  "copy_optional L gc [] params = Inr params"
| "copy_optional L gc ((k, c) # fs) params =
     (case map_of gc k of
        None \<Rightarrow> copy_optional L gc fs params
      | Some v \<Rightarrow> and_then (convert L c v) (\<lambda>x. copy_optional L gc fs (params(k \<mapsto> x))))"

text \<open>
  \<^verbatim>\<open>GridConfig(**params)\<close>: the class is imported from \<^verbatim>\<open>core.services.grid.models\<close>;
  the object built is identified with the keyword arguments it is built from.
\<close>

definition GridConfig :: "params \<Rightarrow> py_error + params" where
  "GridConfig params = Inr params"

text \<open>
  \<^verbatim>\<open>create_grid_config\<close>. \<^verbatim>\<open>grid_config['grid_type']\<close> raises \<^verbatim>\<open>TypeError\<close> when
  the \<^verbatim>\<open>grid_system\<close> section is no dictionary, so past it the section is one.
\<close>

definition create_grid_config :: "pylib \<Rightarrow> pyval \<Rightarrow> py_error + params" where
  "create_grid_config L config_data =
     and_then (subscript config_data ''grid_system'') (\<lambda>grid_config.
       case grid_config of
         YDict gc \<Rightarrow>
           and_then (item gc ''grid_type'') (\<lambda>tag.
           and_then (GridType_of_value tag) (\<lambda>grid_type.
           and_then (base_params L gc grid_type) (\<lambda>params.
           and_then (range_params L gc grid_type params) (\<lambda>params.
           and_then (copy_optional L gc optional_fields params) GridConfig))))
       | _ \<Rightarrow> Inl TypeError)"

text \<open>
  The required fields of a parameter object, by grid type, as the specification states
  them: a follow grid has a follow count (the field \<^verbatim>\<open>follow_grid_count\<close> is there and is
  not \<^verbatim>\<open>None\<close>); every other grid has \<^verbatim>\<open>lower_price\<close> and \<^verbatim>\<open>upper_price\<close>, both
  decimals.
\<close>

fun is_decimal :: "pval option \<Rightarrow> bool" where
  "is_decimal (Some (PDecimal d)) = True"
| "is_decimal v = False"




section \<open>Credentials and the connection configuration\<close>

text \<open>
  The first half of \<^verbatim>\<open>create_exchange_adapter\<close>. The process environment is a map from
  variable names to strings (\<^verbatim>\<open>os.getenv\<close> gives \<^verbatim>\<open>None\<close> for an unset variable); the
  file system maps a path to what loading the YAML file there gives: nothing when the path
  does not exist, a document, or an exception of \<^verbatim>\<open>open\<close> / \<^verbatim>\<open>yaml.safe_load\<close>.
\<close>

datatype file_load = Loaded pyval | LoadRaises

definition getenv :: "(string \<rightharpoonup> string) \<Rightarrow> string \<Rightarrow> pyval" where
  "getenv env n = (case env n of None \<Rightarrow> YNone | Some v \<Rightarrow> YStr v)"

text \<open>The three local variables \<^verbatim>\<open>api_key\<close>, \<^verbatim>\<open>api_secret\<close>, \<^verbatim>\<open>wallet_address\<close>.\<close>

record credentials =
  var_api_key :: pyval
  var_api_secret :: pyval
  var_wallet_address :: pyval

text \<open>\<^verbatim>\<open>a or d.get(k, "")\<close>: the right operand is evaluated only when \<open>a\<close> is falsy.\<close>

definition or_get :: "pyval \<Rightarrow> pyval \<Rightarrow> string \<Rightarrow> py_error + pyval" where
  "or_get a d k = (if truthy a then Inr a else dict_get d k (YStr []))"

text \<open>
  Statements of a \<^verbatim>\<open>try\<close> block, run in order on the local variables: the first one
  that raises ends the block, and the handler (which only logs) sees the variables as the
  statements before it left them.
\<close>

fun try_statements :: "('s \<Rightarrow> py_error + 's) list \<Rightarrow> 's \<Rightarrow> 's" where
  "try_statements [] s = s"
| "try_statements (f # fs) s = (case f s of Inl e \<Rightarrow> s | Inr s' \<Rightarrow> try_statements fs s')"

definition assign_api_key ::
  "(credentials \<Rightarrow> py_error + pyval) \<Rightarrow> credentials \<Rightarrow> py_error + credentials" where
  "assign_api_key rhs c = and_then (rhs c) (\<lambda>v. Inr (c\<lparr>var_api_key := v\<rparr>))"

definition assign_api_secret ::
  "(credentials \<Rightarrow> py_error + pyval) \<Rightarrow> credentials \<Rightarrow> py_error + credentials" where
  "assign_api_secret rhs c = and_then (rhs c) (\<lambda>v. Inr (c\<lparr>var_api_secret := v\<rparr>))"

definition assign_wallet_address ::
  "(credentials \<Rightarrow> py_error + pyval) \<Rightarrow> credentials \<Rightarrow> py_error + credentials" where
  "assign_wallet_address rhs c = and_then (rhs c) (\<lambda>v. Inr (c\<lparr>var_wallet_address := v\<rparr>))"

text \<open>
  The body of the \<^verbatim>\<open>try\<close> once the exchange's file is loaded: the authentication block
  is looked up, then the branch of the exchange assigns the variables.
\<close>

definition file_credentials :: "string \<Rightarrow> pyval \<Rightarrow> credentials \<Rightarrow> credentials" where
  "file_credentials exchange_name exchange_config_data c =
     (case and_then (dict_get exchange_config_data exchange_name (YDict []))
             (\<lambda>section. dict_get section ''authentication'' (YDict [])) of
        Inl e \<Rightarrow> c
      | Inr auth_config \<Rightarrow>
          if exchange_name = ''hyperliquid'' then
            try_statements
              [assign_api_key (\<lambda>c. or_get (var_api_key c) auth_config ''private_key''),
               assign_api_secret (\<lambda>c. or_get (var_api_secret c) auth_config ''private_key''),
               assign_wallet_address
                 (\<lambda>c. or_get (var_wallet_address c) auth_config ''wallet_address'')] c
          else if exchange_name = ''lighter'' then
            (case and_then (dict_get exchange_config_data ''api_config'' (YDict []))
                    (\<lambda>api_config. dict_get api_config ''auth'' (YDict [])) of
               Inl e \<Rightarrow> c
             | Inr auth_config \<Rightarrow>
                 try_statements
                   [assign_api_key
                      (\<lambda>c. or_get (var_api_key c) auth_config ''api_key_private_key''),
                    assign_api_secret
                      (\<lambda>c. or_get (var_api_secret c) auth_config ''api_key_private_key'')] c)
          else
            try_statements
              [assign_api_key (\<lambda>c. or_get (var_api_key c) auth_config ''api_key''),
               assign_api_secret (\<lambda>c.
                  and_then (or_get (var_api_secret c) auth_config ''private_key'') (\<lambda>v.
                    or_get v auth_config ''api_secret'')),
               assign_wallet_address
                 (\<lambda>c. or_get (var_wallet_address c) auth_config ''wallet_address'')] c)"

definition exchange_config_path :: "string \<Rightarrow> string" where
  "exchange_config_path exchange_name = ''config/exchanges/'' @ exchange_name @ ''_config.yaml''"

text \<open>
  The environment is read first; the file is consulted only
  \<^verbatim>\<open>if not api_key or not api_secret\<close>.
\<close>

definition resolve_credentials ::
  "pylib \<Rightarrow> (string \<rightharpoonup> string) \<Rightarrow> (string \<rightharpoonup> file_load) \<Rightarrow> string
    \<Rightarrow> credentials" where
  "resolve_credentials L env fs exchange_name =
     (let c = \<lparr>var_api_key = getenv env (upper L exchange_name @ ''_API_KEY''),
               var_api_secret = getenv env (upper L exchange_name @ ''_API_SECRET''),
               var_wallet_address = getenv env (upper L exchange_name @ ''_WALLET_ADDRESS'')\<rparr>
      in if \<not> truthy (var_api_key c) \<or> \<not> truthy (var_api_secret c) then
           (case fs (exchange_config_path exchange_name) of
              None \<Rightarrow> c
            | Some LoadRaises \<Rightarrow> c
            | Some (Loaded exchange_config_data) \<Rightarrow>
                file_credentials exchange_name exchange_config_data c)
         else c)"

text \<open>
  \<^verbatim>\<open>ExchangeConfig\<close> is imported from the adapters package; these are the keyword
  arguments the daemon passes. The lighter branches pass no \<^verbatim>\<open>wallet_address\<close>.
\<close>

record ExchangeConfig =
  exchange_id :: string
  name :: string
  exchange_type :: ExchangeType
  api_key :: pyval
  api_secret :: pyval
  wallet_address :: "pyval option"
  testnet :: pyval
  enable_websocket :: bool
  enable_auto_reconnect :: bool

definition lighter_exchange_config :: "ExchangeType \<Rightarrow> pyval \<Rightarrow> ExchangeConfig" where
  "lighter_exchange_config market_type tn =
     \<lparr>exchange_id = ''lighter'', name = ''Lighter'', exchange_type = market_type,
      api_key = YStr [], api_secret = YStr [], wallet_address = None,
      testnet = tn, enable_websocket = True, enable_auto_reconnect = True\<rparr>"

text \<open>
  The second half: the connection configuration. For lighter the file is loaded again for
  its \<^verbatim>\<open>testnet\<close> flag; a missing file and a failing load both give \<^verbatim>\<open>testnet=False\<close>.
\<close>

definition build_exchange_config ::
  "pylib \<Rightarrow> (string \<rightharpoonup> string) \<Rightarrow> (string \<rightharpoonup> file_load) \<Rightarrow> string \<Rightarrow> ExchangeType
    \<Rightarrow> ExchangeConfig" where
  "build_exchange_config L env fs exchange_name market_type =
     (let c = resolve_credentials L env fs exchange_name
      in if exchange_name = ''lighter'' then
           (case fs ''config/exchanges/lighter_config.yaml'' of
              None \<Rightarrow> lighter_exchange_config market_type (YBool False)
            | Some LoadRaises \<Rightarrow> lighter_exchange_config market_type (YBool False)
            | Some (Loaded lighter_config_data) \<Rightarrow>
                (case and_then (dict_get lighter_config_data ''api_config'' (YDict []))
                        (\<lambda>api_config. dict_get api_config ''testnet'' (YBool False)) of
                   Inl e \<Rightarrow> lighter_exchange_config market_type (YBool False)
                 | Inr tn \<Rightarrow> lighter_exchange_config market_type tn))
         else
           \<lparr>exchange_id = exchange_name, name = capitalize L exchange_name,
            exchange_type = market_type,
            api_key = py_or (var_api_key c) (YStr []),
            api_secret = py_or (var_api_secret c) (YStr []),
            wallet_address = Some (var_wallet_address c),
            testnet = YBool False, enable_websocket = True, enable_auto_reconnect = True\<rparr>)"

text \<open>\<^verbatim>\<open>s.lower()\<close> / \<^verbatim>\<open>s.upper()\<close> on a document value: only a string has the method.\<close>

definition as_str :: "pyval \<Rightarrow> py_error + string" where
  "as_str v = (case v of YStr s \<Rightarrow> Inr s | _ \<Rightarrow> Inl AttributeError)"

text \<open>
  \<^verbatim>\<open>create_exchange_adapter\<close> up to the factory call: the exchange name is lower-cased,
  the market type detected, the credentials resolved and the configuration built.
\<close>

definition exchange_config_for ::
  "pylib \<Rightarrow> (string \<rightharpoonup> string) \<Rightarrow> (string \<rightharpoonup> file_load) \<Rightarrow> pyval
    \<Rightarrow> py_error + ExchangeConfig" where
  "exchange_config_for L env fs config_data =
     and_then (subscript config_data ''grid_system'') (\<lambda>grid_config.
     and_then (and_then (subscript grid_config ''exchange'') as_str) (\<lambda>exchange.
     and_then (subscript grid_config ''symbol'') (\<lambda>symbol.
     and_then (as_str symbol) (\<lambda>symbol_str.
       Inr (build_exchange_config L env fs (lower L exchange)
              (detect_market_type L symbol_str (lower L exchange)))))))"

text \<open>
  The credential rule in the specification's words: per field, the environment variable
  \<open>{EXCHANGE}_{FIELD}\<close> when set, else the value of the file's authentication block when
  present, else empty.
\<close>

definition spec_credential ::
  "pylib \<Rightarrow> (string \<rightharpoonup> string) \<Rightarrow> (string \<times> pyval) list \<Rightarrow> string \<Rightarrow> string \<Rightarrow> pyval" where
  "spec_credential L env auth exchange_name field =
     (case env (upper L exchange_name @ ''_'' @ upper L field) of
        Some v \<Rightarrow> YStr v
      | None \<Rightarrow> (case map_of auth field of Some v \<Rightarrow> v | None \<Rightarrow> YStr []))"

section \<open>Statistics reporter\<close>

text \<open>
  \<^verbatim>\<open>print_statistics\<close> loops \<^verbatim>\<open>while self._running\<close>. One entry of the list below is
  what one pass of the loop meets: the running flag at the loop test, whether a coordinator
  exists after the sleep, and how the pass goes. Cancellation (\<^verbatim>\<open>asyncio.CancelledError\<close>,
  no \<^verbatim>\<open>Exception\<close>) can only arrive at the \<^verbatim>\<open>await asyncio.sleep\<close>; an exception of the
  snapshot read or of the report is caught by \<^verbatim>\<open>except Exception\<close>. When the list is
  used up the loop is still running.
\<close>

datatype cycle_result = SleepCancelled | SnapshotRaises | ReportRaises | CycleOk

record cycle =
  running_flag :: bool
  coordinator_exists :: bool
  cycle_result :: cycle_result

datatype stat_event = Sleep | ReadSnapshot | Report | LogFailure

datatype loop_end = LoopExit | Cancelled | StillRunning

definition one_cycle :: "cycle \<Rightarrow> stat_event list" where
  "one_cycle c =
     (if \<not> coordinator_exists c then [Sleep]
      else if cycle_result c = SnapshotRaises then [Sleep, ReadSnapshot, LogFailure]
      else if cycle_result c = ReportRaises then [Sleep, ReadSnapshot, Report, LogFailure]
      else [Sleep, ReadSnapshot, Report])"

fun print_statistics :: "cycle list \<Rightarrow> stat_event list \<times> loop_end" where
  "print_statistics [] = ([], StillRunning)"
| "print_statistics (c # cs) =
     (if \<not> running_flag c then ([], LoopExit)
      else if cycle_result c = SleepCancelled then ([Sleep], Cancelled)
      else (one_cycle c @ fst (print_statistics cs), snd (print_statistics cs)))"

definition count_reads :: "stat_event list \<Rightarrow> nat" where
  "count_reads es = length (filter (\<lambda>e. e = ReadSnapshot) es)"

definition count_with_coordinator :: "cycle list \<Rightarrow> nat" where
  "count_with_coordinator cs = length (filter coordinator_exists cs)"

section \<open>Startup, shutdown and cleanup\<close>

text \<open>
  The runner's fields: the running flag, the shutdown event (an \<^verbatim>\<open>asyncio.Event\<close>, a
  flag that \<^verbatim>\<open>set()\<close> raises and nothing lowers), and the three collaborators it may
  hold. The adapter is kept as the configuration it was created from.
\<close>

record runner =
  running :: bool
  shutdown_event :: bool
  coordinator :: bool
  exchange_adapter :: "ExchangeConfig option"
  reserve_monitor :: bool

definition init_runner :: runner where
  "init_runner = \<lparr>running = False, shutdown_event = False, coordinator = False,
                  exchange_adapter = None, reserve_monitor = False\<rparr>"

text \<open>What a call into a collaborator does: it returns, or raises an \<^verbatim>\<open>Exception\<close>.\<close>

datatype outcome = Returns | Raises

datatype check_result = CheckTrue | CheckFalse | CheckRaises

text \<open>
  Everything outside the daemon that one run meets: the loaded configuration file, the
  environment, the exchange files, the outcome of each collaborator call, and the signals
  delivered to the process (in order).
\<close>

record world =
  load_config :: "py_error + pyval"
  environ :: "string \<rightharpoonup> string"
  files :: "string \<rightharpoonup> file_load"
  create_adapter :: outcome
  connect :: outcome
  build_components :: outcome
  build_reserve :: outcome
  build_coordinator :: outcome
  reserve_check :: check_result
  coordinator_start :: outcome
  monitor_start :: outcome
  signals :: "int list"
  cleanup_on_exit :: outcome
  coordinator_stop :: outcome
  monitor_stop :: outcome
  disconnect :: outcome

text \<open>The calls and log lines of a run that the properties speak about, in order.\<close>

datatype event =
    CreateAdapter | Connect | BuildComponents | BuildReserve | BuildCoordinator
  | ReserveCheck | CoordinatorStart | MonitorStart | StatsTaskStart
  | SignalLogged int | StatsTaskCancel
  | CleanupBegin | CleanupOnExit | CoordinatorStop | MonitorStop | Disconnect
  | LogError

text \<open>
  The statements of the outer \<^verbatim>\<open>try\<close> of \<^verbatim>\<open>cleanup\<close>: each call is recorded; the
  first one that raises ends the block (the handler logs the error).
\<close>

fun run_steps :: "(event \<times> outcome) list \<Rightarrow> event list" where
  "run_steps [] = []"
| "run_steps ((c, Returns) # rest) = c # run_steps rest"
| "run_steps ((c, Raises) # rest) = [c, LogError]"

text \<open>
  The inner \<^verbatim>\<open>try\<close> around \<^verbatim>\<open>coordinator.cleanup_on_exit()\<close>: its exception is caught
  and logged there, so the outer block goes on either way.
\<close>

fun isolated :: "event \<Rightarrow> outcome \<Rightarrow> event list" where
  "isolated c Returns = [c]"
| "isolated c Raises = [c, LogError]"

definition cleanup :: "world \<Rightarrow> runner \<Rightarrow> runner \<times> event list" where
  "cleanup w r =
     (r\<lparr>running := False\<rparr>,
      CleanupBegin #
      (if coordinator r
       then isolated CleanupOnExit (cleanup_on_exit w) @
            run_steps ((CoordinatorStop, coordinator_stop w) #
              (if reserve_monitor r then [(MonitorStop, monitor_stop w)] else []) @
              (if exchange_adapter r \<noteq> None then [(Disconnect, disconnect w)] else []))
       else run_steps (
              (if reserve_monitor r then [(MonitorStop, monitor_stop w)] else []) @
              (if exchange_adapter r \<noteq> None then [(Disconnect, disconnect w)] else []))))"

definition handle_signal :: "int \<Rightarrow> runner \<Rightarrow> runner" where
  "handle_signal signum r = r\<lparr>shutdown_event := True\<rparr>"

text \<open>How the \<^verbatim>\<open>try\<close> body of \<^verbatim>\<open>run\<close> ends.\<close>

datatype body_end = BodyDone | BodyExit nat | BodyRaised py_error | BodyBlocked

type_synonym body_result = "runner \<times> event list \<times> body_end"

text \<open>
  \<^verbatim>\<open>await self._shutdown_event.wait()\<close> returns once the event is set; with no signal
  delivered the run stays blocked there. Every delivered signal runs \<^verbatim>\<open>handle_signal\<close>.
  After the wait the statistics task is cancelled.
\<close>

definition wait_for_shutdown :: "world \<Rightarrow> runner \<Rightarrow> event list \<Rightarrow> body_result" where
  "wait_for_shutdown w r tr =
     (let r' = fold handle_signal (signals w) r;
          tr' = tr @ map SignalLogged (signals w)
      in if shutdown_event r' then (r', tr' @ [StatsTaskCancel], BodyDone)
         else (r', tr', BodyBlocked))"

text \<open>Steps 5 and 6: start the coordinator, the reserve monitor if any, the statistics task.\<close>

definition start_system :: "world \<Rightarrow> runner \<Rightarrow> event list \<Rightarrow> body_result" where
  "start_system w r tr =
     (if coordinator_start w = Raises
        then (r, tr @ [CoordinatorStart], BodyRaised CollaboratorError)
      else if reserve_monitor r \<and> monitor_start w = Raises
        then (r, tr @ [CoordinatorStart, MonitorStart], BodyRaised CollaboratorError)
      else wait_for_shutdown w (r\<lparr>running := True\<rparr>)
             (tr @ [CoordinatorStart] @ (if reserve_monitor r then [MonitorStart] else [])
                 @ [StatsTaskStart]))"

text \<open>
  The pre-start check, made only when a reserve manager exists (it exists exactly when the
  reserve monitor does). On failure the handle is disconnected and \<^verbatim>\<open>sys.exit(1)\<close>
  raises \<^verbatim>\<open>SystemExit\<close>.
\<close>

definition prestart_check :: "world \<Rightarrow> runner \<Rightarrow> event list \<Rightarrow> body_result" where
  "prestart_check w r tr =
     (if reserve_monitor r then
        (case reserve_check w of
           CheckRaises \<Rightarrow> (r, tr @ [ReserveCheck], BodyRaised CollaboratorError)
         | CheckFalse \<Rightarrow>
             (if disconnect w = Raises
              then (r, tr @ [ReserveCheck, LogError, Disconnect], BodyRaised CollaboratorError)
              else (r, tr @ [ReserveCheck, LogError, Disconnect], BodyExit 1))
         | CheckTrue \<Rightarrow> start_system w r (tr @ [ReserveCheck]))
      else start_system w r tr)"

text \<open>
  \<^verbatim>\<open>spot_reserve_config and spot_reserve_config.get('enabled', False)\<close>, on the
  \<^verbatim>\<open>spot_reserve\<close> attribute of the configuration (\<^verbatim>\<open>None\<close> when absent).
\<close>

definition reserve_enabled :: "params \<Rightarrow> py_error + bool" where
  "reserve_enabled grid_config =
     (case grid_config ''spot_reserve'' of
        Some (PVal v) \<Rightarrow>
          (if truthy v then and_then (dict_get v ''enabled'' (YBool False)) (\<lambda>e. Inr (truthy e))
           else Inr False)
      | _ \<Rightarrow> Inr False)"

text \<open>Steps 3 and 4: the components, the reserve manager and monitor on spot, the coordinator.\<close>

definition build_system :: "world \<Rightarrow> params \<Rightarrow> runner \<Rightarrow> event list \<Rightarrow> body_result" where
  "build_system w grid_config r tr =
     (if build_components w = Raises
        then (r, tr @ [BuildComponents], BodyRaised CollaboratorError)
      else
        (case (if map_option exchange_type (exchange_adapter r) = Some SPOT
               then reserve_enabled grid_config else Inr False) of
           Inl e \<Rightarrow> (r, tr @ [BuildComponents], BodyRaised e)
         | Inr reserve \<Rightarrow>
             if reserve \<and> build_reserve w = Raises
               then (r, tr @ [BuildComponents, BuildReserve], BodyRaised CollaboratorError)
             else
               (let r1 = r\<lparr>reserve_monitor := reserve\<rparr>;
                    tr1 = tr @ [BuildComponents] @ (if reserve then [BuildReserve] else [])
                in if build_coordinator w = Raises
                     then (r1, tr1 @ [BuildCoordinator], BodyRaised CollaboratorError)
                   else prestart_check w (r1\<lparr>coordinator := True\<rparr>) (tr1 @ [BuildCoordinator]))))"

text \<open>Step 2: \<^verbatim>\<open>create_exchange_adapter\<close>, the factory call and \<^verbatim>\<open>adapter.connect()\<close>.\<close>

definition connect_exchange ::
  "pylib \<Rightarrow> world \<Rightarrow> pyval \<Rightarrow> params \<Rightarrow> runner \<Rightarrow> event list \<Rightarrow> body_result" where
  "connect_exchange L w config_data grid_config r tr =
     (case exchange_config_for L (environ w) (files w) config_data of
        Inl e \<Rightarrow> (r, tr, BodyRaised e)
      | Inr exchange_config \<Rightarrow>
          if create_adapter w = Raises
            then (r, tr @ [CreateAdapter], BodyRaised CollaboratorError)
          else if connect w = Raises
            then (r, tr @ [CreateAdapter, Connect], BodyRaised CollaboratorError)
          else build_system w grid_config (r\<lparr>exchange_adapter := Some exchange_config\<rparr>)
                 (tr @ [CreateAdapter, Connect]))"

text \<open>
  The spot-short check of \<^verbatim>\<open>run\<close>: \<open>is_spot\<close> from the symbol's tag on hyperliquid and
  backpack, and the grid type's value among the three short ones.
\<close>

definition short_values :: "string list" where
  "short_values = [''short'', ''martingale_short'', ''follow_short'']"

definition spot_short_check :: "pylib \<Rightarrow> params \<Rightarrow> py_error + bool" where
  "spot_short_check L grid_config =
     (case (grid_config ''symbol'', grid_config ''exchange'', grid_config ''grid_type'') of
        (Some (PVal symbol), Some (PVal exchange), Some (PGridType grid_type)) \<Rightarrow>
          and_then (as_str exchange) (\<lambda>e.
            let exchange_name = lower L e in
            and_then
              (if exchange_name = ''hyperliquid'' then
                 and_then (as_str symbol) (\<lambda>s. Inr (str_in '':SPOT'' (upper L s)))
               else if exchange_name = ''backpack'' then
                 and_then (as_str symbol) (\<lambda>s.
                   Inr (str_in ''_SPOT'' (upper L s) \<or> str_in ''SPOT'' (upper L s)))
               else Inr False)
              (\<lambda>is_spot. Inr (is_spot \<and> GridType_value grid_type \<in> set short_values)))
      | _ \<Rightarrow> Inl AttributeError)"

text \<open>
  Step 1 and the check; then the rest of the \<^verbatim>\<open>try\<close> body. \<^verbatim>\<open>load_config\<close> logs its
  own failure before it re-raises.
\<close>

definition run_body :: "pylib \<Rightarrow> world \<Rightarrow> runner \<Rightarrow> body_result" where
  "run_body L w r =
     (case load_config w of
        Inl e \<Rightarrow> (r, [LogError], BodyRaised e)
      | Inr config_data \<Rightarrow>
          (case and_then (create_grid_config L config_data) (\<lambda>grid_config.
                  and_then (spot_short_check L grid_config) (\<lambda>reject.
                    Inr (grid_config, reject))) of
             Inl e \<Rightarrow> (r, [], BodyRaised e)
           | Inr (grid_config, reject) \<Rightarrow>
               if reject then (r, [LogError], BodyExit 1)
               else connect_exchange L w config_data grid_config r []))"

text \<open>
  How \<^verbatim>\<open>run\<close> ends: it returns, \<^verbatim>\<open>SystemExit\<close> leaves it with a status, an exception
  propagates (logged and re-raised by \<^verbatim>\<open>except Exception\<close>), or it never leaves the wait.
\<close>

datatype run_end = Returned | SystemExit nat | Propagated py_error | Blocked

text \<open>\<^verbatim>\<open>run\<close>: the body, and \<^verbatim>\<open>cleanup\<close> in the \<^verbatim>\<open>finally\<close> clause however the body ends.\<close>

definition run :: "pylib \<Rightarrow> world \<Rightarrow> runner \<Rightarrow> runner \<times> event list \<times> run_end" where
  "run L w r =
     (case run_body L w r of
        (r1, tr, BodyBlocked) \<Rightarrow> (r1, tr, Blocked)
      | (r1, tr, BodyDone) \<Rightarrow> (fst (cleanup w r1), tr @ snd (cleanup w r1), Returned)
      | (r1, tr, BodyExit n) \<Rightarrow> (fst (cleanup w r1), tr @ snd (cleanup w r1), SystemExit n)
      | (r1, tr, BodyRaised e) \<Rightarrow>
          (fst (cleanup w r1), tr @ [LogError] @ snd (cleanup w r1), Propagated e))"

definition count_event :: "event \<Rightarrow> event list \<Rightarrow> nat" where
  "count_event e tr = length (filter (\<lambda>x. x = e) tr)"

text \<open>
  Two runs are the same up to the log lines of the signal handler when they leave the same
  runner, make the same calls in the same order and end the same way.
\<close>

fun is_signal_log :: "event \<Rightarrow> bool" where
  "is_signal_log (SignalLogged n) = True"
| "is_signal_log e = False"

definition calls_of :: "event list \<Rightarrow> event list" where
  "calls_of tr = filter (\<lambda>e. \<not> is_signal_log e) tr"

definition same_run :: "runner \<times> event list \<times> 'e \<Rightarrow> runner \<times> event list \<times> 'e \<Rightarrow> bool" where
  "same_run x y =
     (fst x = fst y \<and> calls_of (fst (snd x)) = calls_of (fst (snd y)) \<and> snd (snd x) = snd (snd y))"

section \<open>Example inputs\<close>

text \<open>Concrete library functions, documents, environments and loop passes on which the theorems are instantiated.\<close>

definition lib0 :: pylib where
  "lib0 = \<lparr>decimal_of_str = (\<lambda>s. if s = ''0.0001'' then Some (Dec False 1 (-4)) else None),
           decimal_of_float = (\<lambda>f. DecNaN),
           int_of_str = (\<lambda>s. None),
           str_of = (\<lambda>v. []),
           str_upper = (\<lambda>s. s), str_lower = (\<lambda>s. s), str_capitalize = (\<lambda>s. s)\<rparr>"

definition long_doc :: "pyval \<Rightarrow> pyval" where
  "long_doc mp = YDict [(''grid_system'', YDict
      [(''max_position'', mp),
       (''exchange'', YStr ''backpack''), (''symbol'', YStr ''SOL_USDC_PERP''),
       (''grid_type'', YStr ''long''), (''grid_interval'', YInt 2), (''order_amount'', YInt 1),
       (''price_range'', YDict [(''lower_price'', YInt 100), (''upper_price'', YInt 200)])])]"




definition lighter_env :: "string \<rightharpoonup> string" where
  "lighter_env = [''LIGHTER_API_KEY'' \<mapsto> ''0xkey'', ''LIGHTER_API_SECRET'' \<mapsto> ''0xsecret'']"

definition lighter_doc :: pyval where
  "lighter_doc = YDict [(''grid_system'', YDict
      [(''exchange'', YStr ''Lighter''), (''symbol'', YStr ''BTC'')])]"

definition failing_cycle :: cycle where
  "failing_cycle = \<lparr>running_flag = True, coordinator_exists = True, cycle_result = SnapshotRaises\<rparr>"

definition early_cycle :: cycle where
  "early_cycle = \<lparr>running_flag = True, coordinator_exists = False, cycle_result = CycleOk\<rparr>"

definition good_cycle :: cycle where
  "good_cycle = \<lparr>running_flag = True, coordinator_exists = True, cycle_result = CycleOk\<rparr>"

definition stopped_cycle :: cycle where
  "stopped_cycle = \<lparr>running_flag = False, coordinator_exists = True, cycle_result = CycleOk\<rparr>"

definition backpack_env :: "string \<rightharpoonup> string" where
  "backpack_env = [''BACKPACK_API_KEY'' \<mapsto> ''k1'', ''BACKPACK_API_SECRET'' \<mapsto> ''s1'']"

definition backpack_auth :: "(string \<times> pyval) list" where
  "backpack_auth = [(''api_key'', YStr ''k2''), (''api_secret'', YStr ''s2''),
                    (''wallet_address'', YStr ''0xabc'')]"

definition backpack_files :: "string \<rightharpoonup> file_load" where
  "backpack_files = [''config/exchanges/backpack_config.yaml'' \<mapsto>
      Loaded (YDict [(''backpack'', YDict [(''authentication'', YDict backpack_auth)])])]"

definition key_only_env :: "string \<rightharpoonup> string" where
  "key_only_env = [''BACKPACK_API_KEY'' \<mapsto> ''k1'']"

definition calm_world :: "pyval \<Rightarrow> world" where
  "calm_world doc =
     \<lparr>load_config = Inr doc, environ = Map.empty, files = Map.empty,
      create_adapter = Returns, connect = Returns, build_components = Returns,
      build_reserve = Returns, build_coordinator = Returns, reserve_check = CheckTrue,
      coordinator_start = Returns, monitor_start = Returns, signals = [15],
      cleanup_on_exit = Returns, coordinator_stop = Returns, monitor_stop = Returns,
      disconnect = Returns\<rparr>"

definition untagged_short_doc :: pyval where
  "untagged_short_doc = YDict [(''grid_system'', YDict
      [(''exchange'', YStr ''hyperliquid''), (''symbol'', YStr ''BTC''),
       (''grid_type'', YStr ''short''), (''grid_interval'', YInt 2), (''order_amount'', YInt 1),
       (''price_range'', YDict [(''lower_price'', YInt 100), (''upper_price'', YInt 200)])])]"

definition spot_reserve_doc :: pyval where
  "spot_reserve_doc = YDict [(''grid_system'', YDict
      [(''exchange'', YStr ''hyperliquid''), (''symbol'', YStr ''BTC:SPOT''),
       (''grid_type'', YStr ''long''), (''grid_interval'', YInt 2), (''order_amount'', YInt 1),
       (''price_range'', YDict [(''lower_price'', YInt 100), (''upper_price'', YInt 200)]),
       (''spot_reserve'', YDict [(''enabled'', YBool True)])])]"

definition full_runner :: runner where
  "full_runner = \<lparr>running = True, shutdown_event = True, coordinator = True,
      exchange_adapter = Some (lighter_exchange_config PERPETUAL (YBool False)),
      reserve_monitor = True\<rparr>"

section \<open>The market-type resolver is a total table\<close>

lemmas string_eval =
  upper_def lower_def capitalize_def is_ascii_def upper_char_def lower_char_def upper_letters_def lower_letters_def

text \<open>
  Claim C3. The market-type resolver is a total function of (symbol, exchange name): every
  pair of strings has a market type, whatever the library's Unicode case mappings do on
  strings outside ASCII; the four listed examples evaluate as stated; every symbol on
  \<^verbatim>\<open>lighter\<close> is PERPETUAL; a symbol whose upper-case form carries none of the tags
  \<^verbatim>\<open>:USDC\<close>, \<^verbatim>\<open>:PERP\<close>, \<^verbatim>\<open>:SPOT\<close>, on an exchange whose lower-case name is
  \<^verbatim>\<open>hyperliquid\<close>, is SPOT; and a venue whose lower-case name is none of hyperliquid,
  backpack and lighter is PERPETUAL.
\<close>

theorem detect_market_type_total_table:
  "(\<forall>s e. \<exists>m. detect_market_type L s e = m)
   \<and> detect_market_type L ''BTC:USDC'' ''hyperliquid'' = PERPETUAL
   \<and> detect_market_type L ''BTC:SPOT'' ''hyperliquid'' = SPOT
   \<and> detect_market_type L ''SOL_PERP'' ''backpack'' = PERPETUAL
   \<and> (\<forall>s. detect_market_type L s ''lighter'' = PERPETUAL)
   \<and> (\<forall>s e. lower L e = ''hyperliquid''
          \<and> \<not> str_in '':USDC'' (upper L s) \<and> \<not> str_in '':PERP'' (upper L s)
          \<and> \<not> str_in '':SPOT'' (upper L s)
        \<longrightarrow> detect_market_type L s e = SPOT)
   \<and> (\<forall>s e. lower L e \<noteq> ''hyperliquid'' \<and> lower L e \<noteq> ''backpack'' \<and> lower L e \<noteq> ''lighter''
        \<longrightarrow> detect_market_type L s e = PERPETUAL)"
proof -
  have ex1: "detect_market_type L ''BTC:USDC'' ''hyperliquid'' = PERPETUAL"
    by (simp add: detect_market_type_def string_eval)
  have ex2: "detect_market_type L ''BTC:SPOT'' ''hyperliquid'' = SPOT"
    by (simp add: detect_market_type_def string_eval)
  have ex3: "detect_market_type L ''SOL_PERP'' ''backpack'' = PERPETUAL"
    by (simp add: detect_market_type_def string_eval)
  have low: "lower L ''lighter'' = ''lighter''"
    by (simp add: string_eval)
  have li: "\<And>s. detect_market_type L s ''lighter'' = PERPETUAL"
    by (simp add: detect_market_type_def low Let_def)
  have hy: "\<And>s e. lower L e = ''hyperliquid''
          \<and> \<not> str_in '':USDC'' (upper L s) \<and> \<not> str_in '':PERP'' (upper L s)
          \<and> \<not> str_in '':SPOT'' (upper L s)
        \<Longrightarrow> detect_market_type L s e = SPOT"
    by (simp add: detect_market_type_def Let_def)
  have un: "\<And>s e. lower L e \<noteq> ''hyperliquid'' \<and> lower L e \<noteq> ''backpack'' \<and> lower L e \<noteq> ''lighter''
        \<Longrightarrow> detect_market_type L s e = PERPETUAL"
    by (simp add: detect_market_type_def Let_def)
  show ?thesis
    using ex1 ex2 ex3 li hy un by blast
qed

theorem detect_market_type_total_table_witness:
  "detect_market_type lib0 ''eth'' ''HyperLiquid'' = SPOT
   \<and> detect_market_type lib0 ''BTC-USDT'' ''binance'' = PERPETUAL
   \<and> detect_market_type lib0 ''btc:spot'' ''Lighter'' = PERPETUAL"
proof -
  note t = detect_market_type_total_table
  have a: "lower lib0 ''HyperLiquid'' = ''hyperliquid''
          \<and> \<not> str_in '':USDC'' (upper lib0 ''eth'') \<and> \<not> str_in '':PERP'' (upper lib0 ''eth'')
          \<and> \<not> str_in '':SPOT'' (upper lib0 ''eth'')"
    by (simp add: string_eval)
  have b: "lower lib0 ''binance'' \<noteq> ''hyperliquid'' \<and> lower lib0 ''binance'' \<noteq> ''backpack''
          \<and> lower lib0 ''binance'' \<noteq> ''lighter''"
    by (simp add: string_eval)
  have c: "detect_market_type lib0 ''btc:spot'' ''Lighter'' = PERPETUAL"
    by (simp add: detect_market_type_def string_eval)
  from t a have "detect_market_type lib0 ''eth'' ''HyperLiquid'' = SPOT" by blast
  moreover from t b have "detect_market_type lib0 ''BTC-USDT'' ''binance'' = PERPETUAL" by blast
  ultimately show ?thesis using c by simp
qed

section \<open>Properties of the configuration translator\<close>

lemmas translator_eval =
  create_grid_config_def and_then_def item_def get_or_def base_params_def range_params_def
  optional_fields_def GridType_of_value_def all_grid_types_def GridConfig_def is_follow_def

lemma and_then_Inr: "and_then r f = Inr y \<longleftrightarrow> (\<exists>a. r = Inr a \<and> f a = Inr y)"
  by (cases r) (simp_all add: and_then_def)

lemma copy_optional_other:
  "copy_optional L gc fs params = Inr p \<Longrightarrow> k \<notin> fst ` set fs \<Longrightarrow> p k = params k"
proof (induction fs arbitrary: params)
  case Nil
  then show ?case by simp
next
  case (Cons a fs)
  obtain k' c where a: "a = (k', c)" by (cases a)
  show ?case
  proof (cases "map_of gc k'")
    case None
    with Cons a show ?thesis by simp
  next
    case (Some v)
    with Cons.prems a obtain x where
      "copy_optional L gc fs (params(k' \<mapsto> x)) = Inr p"
      by (auto simp: and_then_Inr)
    from Cons.IH[OF this] Cons.prems(2) a show ?thesis by simp
  qed
qed

lemma copy_optional_skip:
  "k0 \<notin> fst ` set fs \<Longrightarrow> copy_optional L ((k0, v) # gc) fs params = copy_optional L gc fs params"
  by (induction fs arbitrary: params) (auto split: option.splits)

lemma optional_keys:
  "''grid_type'' \<notin> fst ` set optional_fields"
  "''max_position'' \<notin> fst ` set optional_fields"
  "''follow_grid_count'' \<notin> fst ` set optional_fields"
  "''lower_price'' \<notin> fst ` set optional_fields"
  "''upper_price'' \<notin> fst ` set optional_fields"
  by (simp_all add: optional_fields_def)

lemma base_params_fields:
  assumes "base_params L gc t = Inr p"
  shows "p ''grid_type'' = Some (PGridType t)"
    and "p ''max_position'' =
          Some (if truthy (get_or gc ''max_position'' YNone)
                then (case to_decimal L (get_or gc ''max_position'' YNone) of Inr d \<Rightarrow> PDecimal d | Inl e \<Rightarrow> PVal YNone)
                else PVal YNone)"
  using assms
  by (auto simp: base_params_def and_then_Inr split: if_splits)

lemma range_params_fields:
  assumes "range_params L gc t params = Inr p"
  shows "p ''grid_type'' = params ''grid_type''"
    and "p ''max_position'' = params ''max_position''"
    and "if is_follow t then p ''follow_grid_count'' \<noteq> None
         else is_decimal (p ''lower_price'') \<and> is_decimal (p ''upper_price'')"
  using assms
  by (auto simp: range_params_def and_then_Inr split: if_splits)


lemma create_grid_config_Inr:
  assumes "create_grid_config L doc = Inr p"
  shows "\<exists>gc tag t p0 p1.
    subscript doc ''grid_system'' = Inr (YDict gc) \<and>
    item gc ''grid_type'' = Inr tag \<and> GridType_of_value tag = Inr t \<and>
    base_params L gc t = Inr p0 \<and> range_params L gc t p0 = Inr p1 \<and>
    copy_optional L gc optional_fields p1 = Inr p"
proof -
  from assms obtain g where g: "subscript doc ''grid_system'' = Inr g"
    and rest: "(case g of
         YDict gc \<Rightarrow>
           and_then (item gc ''grid_type'') (\<lambda>tag.
           and_then (GridType_of_value tag) (\<lambda>grid_type.
           and_then (base_params L gc grid_type) (\<lambda>params.
           and_then (range_params L gc grid_type params) (\<lambda>params.
           and_then (copy_optional L gc optional_fields params) GridConfig))))
       | _ \<Rightarrow> Inl TypeError) = Inr p"
    unfolding create_grid_config_def and_then_Inr by blast
  from rest obtain gc where gc: "g = YDict gc"
    by (cases g) simp_all
  from rest gc show ?thesis
    using g by (auto simp: and_then_Inr GridConfig_def)
qed






lemma base_params_skip:
  "\<not> truthy v \<Longrightarrow> map_of gc ''max_position'' = None \<Longrightarrow>
   base_params L ((''max_position'', v) # gc) t = base_params L gc t"
  by (simp add: base_params_def item_def get_or_def)

lemma range_params_skip:
  "range_params L ((''max_position'', v) # gc) t ps = range_params L gc t ps"
  by (simp add: range_params_def item_def get_or_def)

text \<open>
  Claim C10. A falsy \<^verbatim>\<open>max_position\<close> (absent, \<^verbatim>\<open>None\<close>, 0, 0.0, an empty string)
  becomes \<^verbatim>\<open>None\<close> in the parameters, a non-zero integer or float becomes the decimal
  \<^verbatim>\<open>Decimal(str(v))\<close>, and a document with a falsy \<^verbatim>\<open>max_position\<close> is translated
  exactly as the same document without the key: an explicit zero limit cannot be told
  from an absent one.
\<close>

theorem create_grid_config_max_position:
  "(\<forall>p gc. create_grid_config L doc = Inr p \<and> subscript doc ''grid_system'' = Inr (YDict gc) \<longrightarrow>
      (\<not> truthy (get_or gc ''max_position'' YNone) \<longrightarrow> p ''max_position'' = Some (PVal YNone))
    \<and> (\<forall>i. get_or gc ''max_position'' YNone = YInt i \<and> i \<noteq> 0
          \<longrightarrow> p ''max_position'' = Some (PDecimal (Dec (i < 0) (nat \<bar>i\<bar>) 0)))
    \<and> (\<forall>f. get_or gc ''max_position'' YNone = YFloat f \<and> truthy (YFloat f)
          \<longrightarrow> p ''max_position'' = Some (PDecimal (decimal_of_float L f))))
   \<and> (\<forall>gc v rest. \<not> truthy v \<and> map_of gc ''max_position'' = None \<longrightarrow>
        create_grid_config L (YDict ((''grid_system'', YDict ((''max_position'', v) # gc)) # rest))
        = create_grid_config L (YDict ((''grid_system'', YDict gc) # rest)))"
proof (intro conjI allI impI)
  fix p gc
  assume a: "create_grid_config L doc = Inr p \<and> subscript doc ''grid_system'' = Inr (YDict gc)"
  from create_grid_config_Inr[of L doc p] a obtain t p0 p1 where h:
    "base_params L gc t = Inr p0" "range_params L gc t p0 = Inr p1"
    "copy_optional L gc optional_fields p1 = Inr p"
    by auto
  have mp: "p ''max_position'' = p0 ''max_position''"
    using copy_optional_other[OF h(3) optional_keys(2)] range_params_fields(2)[OF h(2)] by simp
  note b = base_params_fields(2)[OF h(1)]
  { assume "\<not> truthy (get_or gc ''max_position'' YNone)"
    with mp b show "p ''max_position'' = Some (PVal YNone)" by simp }
  { fix i assume "get_or gc ''max_position'' YNone = YInt i \<and> i \<noteq> 0"
    with mp b show "p ''max_position'' = Some (PDecimal (Dec (i < 0) (nat \<bar>i\<bar>) 0))" by simp }
  { fix f assume "get_or gc ''max_position'' YNone = YFloat f \<and> truthy (YFloat f)"
    with mp b show "p ''max_position'' = Some (PDecimal (decimal_of_float L f))" by simp }
next
  fix gc :: "(string \<times> pyval) list" and v rest
  assume a: "\<not> truthy v \<and> map_of gc ''max_position'' = None"
  have nt: "item ((''max_position'', v) # gc) ''grid_type'' = item gc ''grid_type''"
    by (simp add: item_def)
  show "create_grid_config L (YDict ((''grid_system'', YDict ((''max_position'', v) # gc)) # rest))
        = create_grid_config L (YDict ((''grid_system'', YDict gc) # rest))"
    using a
    by (simp add: create_grid_config_def and_then_def nt base_params_skip range_params_skip
        copy_optional_skip[OF optional_keys(2)])
qed

theorem create_grid_config_max_position_witness:
  "(\<exists>p. create_grid_config lib0 (long_doc (YInt 0)) = Inr p \<and> p ''max_position'' = Some (PVal YNone))
   \<and> (\<exists>p. create_grid_config lib0 (long_doc (YInt 5)) = Inr p
         \<and> p ''max_position'' = Some (PDecimal (Dec False 5 0)))
   \<and> create_grid_config lib0 (long_doc (YInt 0))
       = create_grid_config lib0 (YDict [(''grid_system'', YDict
      [(''exchange'', YStr ''backpack''), (''symbol'', YStr ''SOL_USDC_PERP''),
       (''grid_type'', YStr ''long''), (''grid_interval'', YInt 2), (''order_amount'', YInt 1),
       (''price_range'', YDict [(''lower_price'', YInt 100), (''upper_price'', YInt 200)])])])"
proof -
  note t = create_grid_config_max_position
  obtain p0 where p0: "create_grid_config lib0 (long_doc (YInt 0)) = Inr p0"
    by (auto simp add: translator_eval lib0_def long_doc_def)
  obtain p5 where p5: "create_grid_config lib0 (long_doc (YInt 5)) = Inr p5"
    by (auto simp add: translator_eval lib0_def long_doc_def)
  have s: "\<And>v. subscript (long_doc v) ''grid_system'' = Inr (YDict
      [(''max_position'', v),
       (''exchange'', YStr ''backpack''), (''symbol'', YStr ''SOL_USDC_PERP''),
       (''grid_type'', YStr ''long''), (''grid_interval'', YInt 2), (''order_amount'', YInt 1),
       (''price_range'', YDict [(''lower_price'', YInt 100), (''upper_price'', YInt 200)])])"
    by (simp add: long_doc_def)
  have a: "p0 ''max_position'' = Some (PVal YNone)"
    using t[of lib0 "long_doc (YInt 0)"] p0 s[of "YInt 0"] by (simp add: get_or_def)
  have b: "p5 ''max_position'' = Some (PDecimal (Dec False 5 0))"
    using t[of lib0 "long_doc (YInt 5)"] p5 s[of "YInt 5"] by (simp add: get_or_def)
  have c: "create_grid_config lib0 (long_doc (YInt 0))
       = create_grid_config lib0 (YDict [(''grid_system'', YDict
      [(''exchange'', YStr ''backpack''), (''symbol'', YStr ''SOL_USDC_PERP''),
       (''grid_type'', YStr ''long''), (''grid_interval'', YInt 2), (''order_amount'', YInt 1),
       (''price_range'', YDict [(''lower_price'', YInt 100), (''upper_price'', YInt 200)])])])"
    unfolding long_doc_def using t[of lib0] by simp
  from p0 p5 a b c show ?thesis by blast
qed

section \<open>Credential resolution\<close>

lemmas credentials_eval =
  resolve_credentials_def file_credentials_def assign_api_key_def assign_api_secret_def
  assign_wallet_address_def or_get_def and_then_def py_or_def get_or_def getenv_def
  exchange_config_path_def

text \<open>
  Claim C5, as stated, fails: with the key and the secret both set in the environment the
  file is never read, so a wallet address that only the file holds is not filled in, where
  the per-field rule of the specification takes it from the file.
\<close>

theorem wallet_not_filled_counterexample:
  "var_wallet_address (resolve_credentials lib0 backpack_env backpack_files ''backpack'')
     \<noteq> spec_credential lib0 backpack_env backpack_auth ''backpack'' ''wallet_address''"
  by (simp add: credentials_eval spec_credential_def backpack_env_def backpack_files_def
      backpack_auth_def string_eval)

text \<open>
  Claim C5, amended. Each variable starts as its environment variable. When the key and
  the secret are both set (non-empty) in the environment, or the exchange's file is missing
  or fails to load, the three variables are what the environment gives. Otherwise the
  file is consulted and every variable that is unset or empty in the environment falls back
  to the file, field by field: \<^verbatim>\<open>api_key\<close>, then \<^verbatim>\<open>private_key\<close> or
  \<^verbatim>\<open>api_secret\<close>, and \<^verbatim>\<open>wallet_address\<close> of the authentication block (default
  empty); on hyperliquid \<^verbatim>\<open>private_key\<close> for both key and secret; on lighter
  \<^verbatim>\<open>api_config.auth.api_key_private_key\<close> for both, the wallet address left as it is.
\<close>

theorem resolve_credentials_gated_precedence:
  "(let k = getenv env (upper L x @ ''_API_KEY'');
        s = getenv env (upper L x @ ''_API_SECRET'');
        w = getenv env (upper L x @ ''_WALLET_ADDRESS'');
        from_env = \<lparr>var_api_key = k, var_api_secret = s, var_wallet_address = w\<rparr>;
        auth_of = (\<lambda>doc. and_then (dict_get doc x (YDict []))
                      (\<lambda>section. dict_get section ''authentication'' (YDict [])))
    in (truthy k \<and> truthy s \<longrightarrow> resolve_credentials L env fs x = from_env)
     \<and> (fs (exchange_config_path x) = None \<or> fs (exchange_config_path x) = Some LoadRaises
          \<longrightarrow> resolve_credentials L env fs x = from_env)
     \<and> (\<forall>doc auth. (\<not> truthy k \<or> \<not> truthy s) \<and> fs (exchange_config_path x) = Some (Loaded doc)
            \<and> auth_of doc = Inr (YDict auth) \<and> x \<noteq> ''hyperliquid'' \<and> x \<noteq> ''lighter''
          \<longrightarrow> resolve_credentials L env fs x =
               \<lparr>var_api_key = py_or k (get_or auth ''api_key'' (YStr [])),
                var_api_secret = py_or (py_or s (get_or auth ''private_key'' (YStr [])))
                                   (get_or auth ''api_secret'' (YStr [])),
                var_wallet_address = py_or w (get_or auth ''wallet_address'' (YStr []))\<rparr>)
     \<and> (\<forall>doc auth. (\<not> truthy k \<or> \<not> truthy s) \<and> fs (exchange_config_path x) = Some (Loaded doc)
            \<and> auth_of doc = Inr (YDict auth) \<and> x = ''hyperliquid''
          \<longrightarrow> resolve_credentials L env fs x =
               \<lparr>var_api_key = py_or k (get_or auth ''private_key'' (YStr [])),
                var_api_secret = py_or s (get_or auth ''private_key'' (YStr [])),
                var_wallet_address = py_or w (get_or auth ''wallet_address'' (YStr []))\<rparr>)
     \<and> (\<forall>doc a auth. (\<not> truthy k \<or> \<not> truthy s) \<and> fs (exchange_config_path x) = Some (Loaded doc)
            \<and> auth_of doc = Inr a \<and> x = ''lighter''
            \<and> and_then (dict_get doc ''api_config'' (YDict []))
                 (\<lambda>api_config. dict_get api_config ''auth'' (YDict [])) = Inr (YDict auth)
          \<longrightarrow> resolve_credentials L env fs x =
               \<lparr>var_api_key = py_or k (get_or auth ''api_key_private_key'' (YStr [])),
                var_api_secret = py_or s (get_or auth ''api_key_private_key'' (YStr [])),
                var_wallet_address = w\<rparr>))"
  unfolding Let_def
proof (intro conjI allI impI)
  show "truthy (getenv env (upper L x @ ''_API_KEY'')) \<and> truthy (getenv env (upper L x @ ''_API_SECRET''))
    \<Longrightarrow> resolve_credentials L env fs x =
        \<lparr>var_api_key = getenv env (upper L x @ ''_API_KEY''),
         var_api_secret = getenv env (upper L x @ ''_API_SECRET''),
         var_wallet_address = getenv env (upper L x @ ''_WALLET_ADDRESS'')\<rparr>"
    by (simp add: resolve_credentials_def Let_def)
next
  show "fs (exchange_config_path x) = None \<or> fs (exchange_config_path x) = Some LoadRaises
    \<Longrightarrow> resolve_credentials L env fs x =
        \<lparr>var_api_key = getenv env (upper L x @ ''_API_KEY''),
         var_api_secret = getenv env (upper L x @ ''_API_SECRET''),
         var_wallet_address = getenv env (upper L x @ ''_WALLET_ADDRESS'')\<rparr>"
    by (auto simp add: resolve_credentials_def Let_def)
next
  fix doc auth
  assume "(\<not> truthy (getenv env (upper L x @ ''_API_KEY'')) \<or> \<not> truthy (getenv env (upper L x @ ''_API_SECRET'')))
     \<and> fs (exchange_config_path x) = Some (Loaded doc)
     \<and> and_then (dict_get doc x (YDict [])) (\<lambda>section. dict_get section ''authentication'' (YDict []))
         = Inr (YDict auth) \<and> x \<noteq> ''hyperliquid'' \<and> x \<noteq> ''lighter''"
  then show "resolve_credentials L env fs x =
               \<lparr>var_api_key = py_or (getenv env (upper L x @ ''_API_KEY'')) (get_or auth ''api_key'' (YStr [])),
                var_api_secret = py_or (py_or (getenv env (upper L x @ ''_API_SECRET'')) (get_or auth ''private_key'' (YStr [])))
                                   (get_or auth ''api_secret'' (YStr [])),
                var_wallet_address = py_or (getenv env (upper L x @ ''_WALLET_ADDRESS'')) (get_or auth ''wallet_address'' (YStr []))\<rparr>"
    by (auto simp add: resolve_credentials_def Let_def file_credentials_def assign_api_key_def
        assign_api_secret_def assign_wallet_address_def or_get_def py_or_def get_or_def
        and_then_def[of "Inr _"] and_then_def[of "dict_get (YDict _) _ _"])
next
  fix doc auth
  assume "(\<not> truthy (getenv env (upper L x @ ''_API_KEY'')) \<or> \<not> truthy (getenv env (upper L x @ ''_API_SECRET'')))
     \<and> fs (exchange_config_path x) = Some (Loaded doc)
     \<and> and_then (dict_get doc x (YDict [])) (\<lambda>section. dict_get section ''authentication'' (YDict []))
         = Inr (YDict auth) \<and> x = ''hyperliquid''"
  then show "resolve_credentials L env fs x =
               \<lparr>var_api_key = py_or (getenv env (upper L x @ ''_API_KEY'')) (get_or auth ''private_key'' (YStr [])),
                var_api_secret = py_or (getenv env (upper L x @ ''_API_SECRET'')) (get_or auth ''private_key'' (YStr [])),
                var_wallet_address = py_or (getenv env (upper L x @ ''_WALLET_ADDRESS'')) (get_or auth ''wallet_address'' (YStr []))\<rparr>"
    by (auto simp add: resolve_credentials_def Let_def file_credentials_def assign_api_key_def
        assign_api_secret_def assign_wallet_address_def or_get_def py_or_def get_or_def
        and_then_def[of "Inr _"] and_then_def[of "dict_get (YDict _) _ _"])
next
  fix doc a auth
  assume "(\<not> truthy (getenv env (upper L x @ ''_API_KEY'')) \<or> \<not> truthy (getenv env (upper L x @ ''_API_SECRET'')))
     \<and> fs (exchange_config_path x) = Some (Loaded doc)
     \<and> and_then (dict_get doc x (YDict [])) (\<lambda>section. dict_get section ''authentication'' (YDict []))
         = Inr a \<and> x = ''lighter''
     \<and> and_then (dict_get doc ''api_config'' (YDict []))
                 (\<lambda>api_config. dict_get api_config ''auth'' (YDict [])) = Inr (YDict auth)"
  then show "resolve_credentials L env fs x =
               \<lparr>var_api_key = py_or (getenv env (upper L x @ ''_API_KEY'')) (get_or auth ''api_key_private_key'' (YStr [])),
                var_api_secret = py_or (getenv env (upper L x @ ''_API_SECRET'')) (get_or auth ''api_key_private_key'' (YStr [])),
                var_wallet_address = getenv env (upper L x @ ''_WALLET_ADDRESS'')\<rparr>"
    by (auto simp add: resolve_credentials_def Let_def file_credentials_def assign_api_key_def
        assign_api_secret_def assign_wallet_address_def or_get_def py_or_def get_or_def
        and_then_def[of "Inr _"] and_then_def[of "dict_get (YDict _) _ _"])
qed

theorem resolve_credentials_gated_precedence_witness:
  "resolve_credentials lib0 backpack_env backpack_files ''backpack''
     = \<lparr>var_api_key = YStr ''k1'', var_api_secret = YStr ''s1'', var_wallet_address = YNone\<rparr>
   \<and> resolve_credentials lib0 key_only_env backpack_files ''backpack''
     = \<lparr>var_api_key = YStr ''k1'', var_api_secret = YStr ''s2'', var_wallet_address = YStr ''0xabc''\<rparr>
   \<and> resolve_credentials lib0 key_only_env Map.empty ''backpack''
     = \<lparr>var_api_key = YStr ''k1'', var_api_secret = YNone, var_wallet_address = YNone\<rparr>"
proof -
  note t = resolve_credentials_gated_precedence[unfolded Let_def]
  have up: "upper lib0 ''backpack'' = ''BACKPACK''" by (simp add: string_eval)
  have p: "exchange_config_path ''backpack'' = ''config/exchanges/backpack_config.yaml''"
    by (simp add: exchange_config_path_def)
  have a: "resolve_credentials lib0 backpack_env backpack_files ''backpack''
     = \<lparr>var_api_key = YStr ''k1'', var_api_secret = YStr ''s1'', var_wallet_address = YNone\<rparr>"
    using t[where L = lib0 and env = backpack_env and x = "''backpack''" and fs = backpack_files]
    by (simp add: up backpack_env_def getenv_def)
  have auth: "and_then (dict_get (YDict [(''backpack'', YDict [(''authentication'', YDict backpack_auth)])])
                ''backpack'' (YDict []))
            (\<lambda>section. dict_get section ''authentication'' (YDict [])) = Inr (YDict backpack_auth)"
    by (simp add: and_then_def)
  have b: "resolve_credentials lib0 key_only_env backpack_files ''backpack''
     = \<lparr>var_api_key = YStr ''k1'', var_api_secret = YStr ''s2'', var_wallet_address = YStr ''0xabc''\<rparr>"
    using t[where L = lib0 and env = key_only_env and x = "''backpack''" and fs = backpack_files] auth
    by (simp add: up p key_only_env_def getenv_def backpack_files_def backpack_auth_def
        py_or_def get_or_def)
  have c: "resolve_credentials lib0 key_only_env Map.empty ''backpack''
     = \<lparr>var_api_key = YStr ''k1'', var_api_secret = YNone, var_wallet_address = YNone\<rparr>"
    using t[where L = lib0 and env = key_only_env and x = "''backpack''" and fs = Map.empty]
    by (simp add: up key_only_env_def getenv_def)
  from a b c show ?thesis by blast
qed

section \<open>The lighter connection configuration\<close>

lemma as_str_Inr: "as_str v = Inr s \<longleftrightarrow> v = YStr s"
  by (cases v) (simp_all add: as_str_def)

lemma lighter_cfg_fields:
  "api_key (lighter_exchange_config m tn) = YStr [] \<and> api_secret (lighter_exchange_config m tn) = YStr []"
  by (simp add: lighter_exchange_config_def)

lemma build_exchange_config_lighter:
  "api_key (build_exchange_config L env fs ''lighter'' m) = YStr []
   \<and> api_secret (build_exchange_config L env fs ''lighter'' m) = YStr []"
  by (simp add: build_exchange_config_def Let_def lighter_cfg_fields
      split: option.splits file_load.splits sum.splits)

text \<open>
  Claim C9. For the exchange \<^verbatim>\<open>lighter\<close> the connection configuration has the empty
  string as \<^verbatim>\<open>api_key\<close> and as \<^verbatim>\<open>api_secret\<close>, whatever the environment and the
  files hold: the credentials resolved before are not put into it.
\<close>

theorem lighter_config_never_carries_credentials:
  "(\<forall>env fs m. api_key (build_exchange_config L env fs ''lighter'' m) = YStr []
        \<and> api_secret (build_exchange_config L env fs ''lighter'' m) = YStr [])
   \<and> (\<forall>env fs config_data cfg e.
        exchange_config_for L env fs config_data = Inr cfg
        \<and> and_then (subscript config_data ''grid_system'') (\<lambda>g. subscript g ''exchange'') = Inr (YStr e)
        \<and> lower L e = ''lighter''
        \<longrightarrow> api_key cfg = YStr [] \<and> api_secret cfg = YStr [])"
proof (intro conjI allI impI)
  fix env fs m
  show "api_key (build_exchange_config L env fs ''lighter'' m) = YStr []"
    "api_secret (build_exchange_config L env fs ''lighter'' m) = YStr []"
    using build_exchange_config_lighter by simp_all
next
  fix env fs config_data cfg e
  assume a: "exchange_config_for L env fs config_data = Inr cfg
        \<and> and_then (subscript config_data ''grid_system'') (\<lambda>g. subscript g ''exchange'') = Inr (YStr e)
        \<and> lower L e = ''lighter''"
  then obtain m where "cfg = build_exchange_config L env fs ''lighter'' m"
    by (auto simp: exchange_config_for_def and_then_Inr as_str_Inr)
  then show "api_key cfg = YStr []" "api_secret cfg = YStr []"
    using build_exchange_config_lighter by simp_all
qed

theorem lighter_config_never_carries_credentials_witness:
  "var_api_key (resolve_credentials lib0 lighter_env Map.empty ''lighter'') = YStr ''0xkey''
   \<and> (\<exists>cfg. exchange_config_for lib0 lighter_env Map.empty lighter_doc = Inr cfg
         \<and> api_key cfg = YStr [] \<and> api_secret cfg = YStr [])"
proof -
  note t = lighter_config_never_carries_credentials
  have a: "var_api_key (resolve_credentials lib0 lighter_env Map.empty ''lighter'') = YStr ''0xkey''"
    by (simp add: resolve_credentials_def lighter_env_def getenv_def string_eval)
  obtain cfg where c: "exchange_config_for lib0 lighter_env Map.empty lighter_doc = Inr cfg"
    by (simp add: exchange_config_for_def lighter_doc_def and_then_def as_str_def)
  have e: "and_then (subscript lighter_doc ''grid_system'') (\<lambda>g. subscript g ''exchange'')
      = Inr (YStr ''Lighter'')"
    by (simp add: lighter_doc_def and_then_def)
  have l: "lower lib0 ''Lighter'' = ''lighter''"
    by (simp add: string_eval)
  from t c e l have "api_key cfg = YStr [] \<and> api_secret cfg = YStr []" by blast
  with a c show ?thesis by blast
qed

section \<open>The statistics reporter\<close>

lemma count_reads_append: "count_reads (a @ b) = count_reads a + count_reads b"
  by (simp add: count_reads_def)

lemma count_reads_one_cycle: "count_reads (one_cycle c) = (if coordinator_exists c then 1 else 0)"
  by (simp add: count_reads_def one_cycle_def)

lemma reads_bounded: "count_reads (fst (print_statistics cs)) \<le> count_with_coordinator cs"
proof (induction cs)
  case Nil
  then show ?case by (simp add: count_reads_def)
next
  case (Cons c cs)
  have s: "count_with_coordinator (c # cs) = (if coordinator_exists c then 1 else 0) + count_with_coordinator cs"
    by (simp add: count_with_coordinator_def)
  show ?case
    using Cons.IH
    by (simp add: s count_reads_append count_reads_one_cycle) (simp add: count_reads_def)
qed

text \<open>
  Claim C7. A pass of the loop that is not cancelled, also one whose snapshot read or
  report raises, is followed by the next pass, and a raising pass ends by logging the
  failure; a pass with no coordinator reads no snapshot, and over any run there are at most
  as many snapshot reads as passes with a coordinator; once the running flag is clear at
  the loop test the loop ends and no later pass runs.
\<close>

theorem print_statistics_resilient:
  "(running_flag c \<and> cycle_result c \<noteq> SleepCancelled \<longrightarrow>
      print_statistics (c # cs) = (one_cycle c @ fst (print_statistics cs), snd (print_statistics cs)))
   \<and> (coordinator_exists c \<and> (cycle_result c = SnapshotRaises \<or> cycle_result c = ReportRaises)
        \<longrightarrow> last (one_cycle c) = LogFailure)
   \<and> (\<not> coordinator_exists c \<longrightarrow> ReadSnapshot \<notin> set (one_cycle c))
   \<and> count_reads (fst (print_statistics cs)) \<le> count_with_coordinator cs
   \<and> (\<not> running_flag c \<longrightarrow> print_statistics (c # cs) = ([], LoopExit))"
  using reads_bounded by (simp add: one_cycle_def)

theorem print_statistics_resilient_witness:
  "print_statistics [early_cycle, failing_cycle, good_cycle, stopped_cycle, good_cycle]
     = ([Sleep, Sleep, ReadSnapshot, LogFailure, Sleep, ReadSnapshot, Report], LoopExit)"
proof -
  note t = print_statistics_resilient
  have 1: "print_statistics (stopped_cycle # [good_cycle]) = ([], LoopExit)"
    using t[of stopped_cycle] by (simp add: stopped_cycle_def)
  have 2: "print_statistics (good_cycle # [stopped_cycle, good_cycle])
             = ([Sleep, ReadSnapshot, Report], LoopExit)"
    using t[of good_cycle "[stopped_cycle, good_cycle]"] 1
    by (simp add: good_cycle_def one_cycle_def)
  have 3: "print_statistics (failing_cycle # [good_cycle, stopped_cycle, good_cycle])
             = ([Sleep, ReadSnapshot, LogFailure, Sleep, ReadSnapshot, Report], LoopExit)"
    using t[of failing_cycle "[good_cycle, stopped_cycle, good_cycle]"] 2
    by (simp add: failing_cycle_def one_cycle_def)
  show ?thesis
    using t[of early_cycle "[failing_cycle, good_cycle, stopped_cycle, good_cycle]"] 3
    by (simp add: early_cycle_def one_cycle_def)
qed

section \<open>Cleanup, startup and shutdown\<close>

text \<open>
  Claim C1 asks that every cleanup step be attempted whatever an earlier step did. The
  hook \<^verbatim>\<open>cleanup_on_exit\<close> is isolated by its own handler, but the two stops and the
  disconnect share one \<^verbatim>\<open>try\<close>: with coordinator, monitor and adapter all present, a
  raising \<^verbatim>\<open>coordinator.stop()\<close> ends the cleanup before the monitor is stopped and the
  exchange disconnected, and a raising \<^verbatim>\<open>reserve_monitor.stop()\<close> ends it before the
  disconnect. Only a raising hook leaves the later steps in place.
\<close>

theorem cleanup_failed_stop_skips_rest:
  "snd (cleanup ((calm_world YNone)\<lparr>coordinator_stop := Raises\<rparr>) full_runner)
     = [CleanupBegin, CleanupOnExit, CoordinatorStop, LogError]
   \<and> snd (cleanup ((calm_world YNone)\<lparr>monitor_stop := Raises\<rparr>) full_runner)
     = [CleanupBegin, CleanupOnExit, CoordinatorStop, MonitorStop, LogError]
   \<and> snd (cleanup ((calm_world YNone)\<lparr>cleanup_on_exit := Raises\<rparr>) full_runner)
     = [CleanupBegin, CleanupOnExit, LogError, CoordinatorStop, MonitorStop, Disconnect]"
  by (simp add: cleanup_def calm_world_def full_runner_def)

lemma untagged_cfg:
  "\<exists>p. create_grid_config lib0 untagged_short_doc = Inr p
     \<and> p ''symbol'' = Some (PVal (YStr ''BTC'')) \<and> p ''exchange'' = Some (PVal (YStr ''hyperliquid''))
     \<and> p ''grid_type'' = Some (PGridType SHORT) \<and> p ''spot_reserve'' = None"
  by (simp add: translator_eval lib0_def untagged_short_doc_def)

lemma untagged_run:
  "detect_market_type lib0 ''BTC'' ''hyperliquid'' = SPOT
   \<and> snd (run lib0 (calm_world untagged_short_doc) init_runner)
      = ([CreateAdapter, Connect, BuildComponents, BuildCoordinator, CoordinatorStart,
          StatsTaskStart, SignalLogged 15, StatsTaskCancel,
          CleanupBegin, CleanupOnExit, CoordinatorStop, Disconnect], Returned)"
proof -
  have a: "detect_market_type lib0 ''BTC'' ''hyperliquid'' = SPOT"
    by (simp add: detect_market_type_def string_eval)
  obtain p where p: "create_grid_config lib0 untagged_short_doc = Inr p"
     "p ''symbol'' = Some (PVal (YStr ''BTC''))" "p ''exchange'' = Some (PVal (YStr ''hyperliquid''))"
     "p ''grid_type'' = Some (PGridType SHORT)" "p ''spot_reserve'' = None"
    using untagged_cfg by blast
  have chk: "spot_short_check lib0 p = Inr False"
    using p by (simp add: spot_short_check_def and_then_def as_str_def string_eval)
  have cfg: "\<exists>c. exchange_config_for lib0 Map.empty Map.empty untagged_short_doc = Inr c \<and> exchange_type c = SPOT"
    by (simp add: exchange_config_for_def untagged_short_doc_def and_then_def as_str_def
        build_exchange_config_def Let_def a string_eval)
  then obtain c where c: "exchange_config_for lib0 Map.empty Map.empty untagged_short_doc = Inr c"
    "exchange_type c = SPOT" by blast
  have "snd (run lib0 (calm_world untagged_short_doc) init_runner)
      = ([CreateAdapter, Connect, BuildComponents, BuildCoordinator, CoordinatorStart,
          StatsTaskStart, SignalLogged 15, StatsTaskCancel,
          CleanupBegin, CleanupOnExit, CoordinatorStop, Disconnect], Returned)"
    using p chk c
    by (simp add: run_def run_body_def connect_exchange_def build_system_def prestart_check_def
        start_system_def wait_for_shutdown_def cleanup_def handle_signal_def reserve_enabled_def
        init_runner_def calm_world_def and_then_def Let_def)
  with a show ?thesis by simp
qed

text \<open>
  Claim C2 asks that a short grid on a market resolved as SPOT exits with status 1 before
  any connection. The check in \<^verbatim>\<open>run\<close> looks for the tag \<^verbatim>\<open>:SPOT\<close> only, while
  \<^verbatim>\<open>detect_market_type\<close> resolves a hyperliquid symbol with no tag to SPOT: the short
  grid on \<^verbatim>\<open>BTC\<close> is not rejected, the exchange is connected as a spot market and the
  run goes on to a normal shutdown.
\<close>

theorem untagged_spot_short_connects:
  "detect_market_type lib0 ''BTC'' ''hyperliquid'' = SPOT
   \<and> snd (run lib0 (calm_world untagged_short_doc) init_runner)
      = ([CreateAdapter, Connect, BuildComponents, BuildCoordinator, CoordinatorStart,
          StatsTaskStart, SignalLogged 15, StatsTaskCancel,
          CleanupBegin, CleanupOnExit, CoordinatorStop, Disconnect], Returned)"
  by (rule untagged_run)

lemma spot_reserve_cfg:
  "\<exists>p. create_grid_config lib0 spot_reserve_doc = Inr p
     \<and> p ''symbol'' = Some (PVal (YStr ''BTC:SPOT'')) \<and> p ''exchange'' = Some (PVal (YStr ''hyperliquid''))
     \<and> p ''grid_type'' = Some (PGridType LONG)
     \<and> p ''spot_reserve'' = Some (PVal (YDict [(''enabled'', YBool True)]))"
  by (simp add: translator_eval lib0_def spot_reserve_doc_def)

lemma spot_reserve_run:
  "snd (run lib0 ((calm_world spot_reserve_doc)\<lparr>reserve_check := CheckFalse\<rparr>) init_runner)
      = ([CreateAdapter, Connect, BuildComponents, BuildReserve, BuildCoordinator,
          ReserveCheck, LogError, Disconnect,
          CleanupBegin, CleanupOnExit, CoordinatorStop, MonitorStop, Disconnect], SystemExit 1)"
proof -
  obtain p where p: "create_grid_config lib0 spot_reserve_doc = Inr p"
     "p ''symbol'' = Some (PVal (YStr ''BTC:SPOT''))" "p ''exchange'' = Some (PVal (YStr ''hyperliquid''))"
     "p ''grid_type'' = Some (PGridType LONG)"
     "p ''spot_reserve'' = Some (PVal (YDict [(''enabled'', YBool True)]))"
    using spot_reserve_cfg by blast
  have chk: "spot_short_check lib0 p = Inr False"
    using p by (simp add: spot_short_check_def and_then_def as_str_def string_eval short_values_def)
  have m: "detect_market_type lib0 ''BTC:SPOT'' ''hyperliquid'' = SPOT"
    by (simp add: detect_market_type_def string_eval)
  have "\<exists>c. exchange_config_for lib0 Map.empty Map.empty spot_reserve_doc = Inr c \<and> exchange_type c = SPOT"
    by (simp add: exchange_config_for_def spot_reserve_doc_def and_then_def as_str_def
        build_exchange_config_def Let_def m string_eval)
  then obtain c where c: "exchange_config_for lib0 Map.empty Map.empty spot_reserve_doc = Inr c"
    "exchange_type c = SPOT" by blast
  show ?thesis
    using p chk c
    by (simp add: run_def run_body_def connect_exchange_def build_system_def prestart_check_def
        cleanup_def reserve_enabled_def init_runner_def calm_world_def and_then_def Let_def)
qed

lemma long_cfg:
  "\<exists>p. create_grid_config lib0 (long_doc (YInt 0)) = Inr p
     \<and> p ''symbol'' = Some (PVal (YStr ''SOL_USDC_PERP'')) \<and> p ''exchange'' = Some (PVal (YStr ''backpack''))
     \<and> p ''grid_type'' = Some (PGridType LONG) \<and> p ''spot_reserve'' = None"
  by (simp add: translator_eval lib0_def long_doc_def)

lemma failed_stop_run:
  "snd (run lib0 ((calm_world (long_doc (YInt 0)))\<lparr>coordinator_stop := Raises\<rparr>) init_runner)
      = ([CreateAdapter, Connect, BuildComponents, BuildCoordinator, CoordinatorStart,
          StatsTaskStart, SignalLogged 15, StatsTaskCancel,
          CleanupBegin, CleanupOnExit, CoordinatorStop, LogError], Returned)"
proof -
  obtain p where p: "create_grid_config lib0 (long_doc (YInt 0)) = Inr p"
     "p ''symbol'' = Some (PVal (YStr ''SOL_USDC_PERP''))" "p ''exchange'' = Some (PVal (YStr ''backpack''))"
     "p ''grid_type'' = Some (PGridType LONG)" "p ''spot_reserve'' = None"
    using long_cfg by blast
  have chk: "spot_short_check lib0 p = Inr False"
    using p by (simp add: spot_short_check_def and_then_def as_str_def string_eval short_values_def)
  have m: "detect_market_type lib0 ''SOL_USDC_PERP'' ''backpack'' = PERPETUAL"
    by (simp add: detect_market_type_def string_eval)
  have "\<exists>c. exchange_config_for lib0 Map.empty Map.empty (long_doc (YInt 0)) = Inr c
          \<and> exchange_type c = PERPETUAL"
    by (simp add: exchange_config_for_def long_doc_def and_then_def as_str_def
        build_exchange_config_def Let_def m string_eval)
  then obtain c where c: "exchange_config_for lib0 Map.empty Map.empty (long_doc (YInt 0)) = Inr c"
    "exchange_type c = PERPETUAL" by blast
  show ?thesis
    using p chk c
    by (simp add: run_def run_body_def connect_exchange_def build_system_def prestart_check_def
        start_system_def wait_for_shutdown_def handle_signal_def
        cleanup_def reserve_enabled_def init_runner_def calm_world_def and_then_def Let_def)
qed

text \<open>
  Claim C6 asks for exactly one disconnect per opened connection. When the pre-start
  reserve check fails, \<^verbatim>\<open>run\<close> disconnects and calls \<^verbatim>\<open>sys.exit(1)\<close>; the
  \<^verbatim>\<open>finally\<close> clause then runs \<^verbatim>\<open>cleanup\<close>, which disconnects the same handle again:
  two calls. And when \<^verbatim>\<open>coordinator.stop()\<close> raises during cleanup, the connection that
  was opened is never disconnected: no call.
\<close>

theorem disconnect_twice_or_never:
  "snd (run lib0 ((calm_world spot_reserve_doc)\<lparr>reserve_check := CheckFalse\<rparr>) init_runner)
      = ([CreateAdapter, Connect, BuildComponents, BuildReserve, BuildCoordinator,
          ReserveCheck, LogError, Disconnect,
          CleanupBegin, CleanupOnExit, CoordinatorStop, MonitorStop, Disconnect], SystemExit 1)
   \<and> count_event Disconnect
        (fst (snd (run lib0 ((calm_world spot_reserve_doc)\<lparr>reserve_check := CheckFalse\<rparr>) init_runner))) = 2
   \<and> count_event Connect
        (fst (snd (run lib0 ((calm_world (long_doc (YInt 0)))\<lparr>coordinator_stop := Raises\<rparr>) init_runner))) = 1
   \<and> count_event Disconnect
        (fst (snd (run lib0 ((calm_world (long_doc (YInt 0)))\<lparr>coordinator_stop := Raises\<rparr>) init_runner))) = 0"
  by (simp add: spot_reserve_run failed_stop_run count_event_def)

lemma handle_signal_twice: "handle_signal n (handle_signal m r) = handle_signal m r"
  by (simp add: handle_signal_def)

lemma handle_signal_noop: "shutdown_event r \<Longrightarrow> handle_signal n r = r"
  by (simp add: handle_signal_def)

lemma fold_handle_signal: "sigs \<noteq> [] \<Longrightarrow> fold handle_signal sigs r = r\<lparr>shutdown_event := True\<rparr>"
proof (induction sigs arbitrary: r)
  case Nil
  then show ?case by simp
next
  case (Cons s sigs)
  show ?case
  proof (cases "sigs = []")
    case True
    then show ?thesis by (simp add: handle_signal_def)
  next
    case False
    from Cons.IH[OF False, of "handle_signal s r"] show ?thesis
      by (simp add: handle_signal_def)
  qed
qed

lemma calls_of_append: "calls_of (a @ b) = calls_of a @ calls_of b"
  by (simp add: calls_of_def)

lemma calls_of_signals: "calls_of (map SignalLogged sigs) = []"
  by (induction sigs) (simp_all add: calls_of_def)

lemma wait_same:
  assumes "a \<noteq> []" "b \<noteq> []" "calls_of tr = calls_of tr'"
  shows "same_run (wait_for_shutdown (w\<lparr>signals := a\<rparr>) r tr)
                  (wait_for_shutdown (w\<lparr>signals := b\<rparr>) r tr')"
  using assms
  by (simp add: wait_for_shutdown_def Let_def fold_handle_signal same_run_def calls_of_append
      calls_of_signals)

lemma same_run_triple [simp]:
  "same_run (r, t, e) (r', t', e') \<longleftrightarrow> r = r' \<and> calls_of t = calls_of t' \<and> e = e'"
  by (simp add: same_run_def)

lemma start_same:
  assumes "a \<noteq> []" "b \<noteq> []" "calls_of tr = calls_of tr'"
  shows "same_run (start_system (w\<lparr>signals := a\<rparr>) r tr)
                  (start_system (w\<lparr>signals := b\<rparr>) r tr')"
  using assms
  by (auto simp: start_system_def calls_of_append intro!: wait_same)

lemma prestart_same:
  assumes "a \<noteq> []" "b \<noteq> []" "calls_of tr = calls_of tr'"
  shows "same_run (prestart_check (w\<lparr>signals := a\<rparr>) r tr)
                  (prestart_check (w\<lparr>signals := b\<rparr>) r tr')"
  using assms
  by (auto simp: prestart_check_def calls_of_append split: check_result.splits intro!: start_same)

lemma build_same:
  assumes "a \<noteq> []" "b \<noteq> []" "calls_of tr = calls_of tr'"
  shows "same_run (build_system (w\<lparr>signals := a\<rparr>) g r tr)
                  (build_system (w\<lparr>signals := b\<rparr>) g r tr')"
  using assms
  by (auto simp: build_system_def Let_def calls_of_append split: sum.splits intro!: prestart_same)

lemma connect_same:
  assumes "a \<noteq> []" "b \<noteq> []" "calls_of tr = calls_of tr'"
  shows "same_run (connect_exchange L (w\<lparr>signals := a\<rparr>) d g r tr)
                  (connect_exchange L (w\<lparr>signals := b\<rparr>) d g r tr')"
  using assms
  by (auto simp: connect_exchange_def calls_of_append split: sum.splits intro!: build_same)

lemma body_same:
  assumes "a \<noteq> []" "b \<noteq> []"
  shows "same_run (run_body L (w\<lparr>signals := a\<rparr>) r) (run_body L (w\<lparr>signals := b\<rparr>) r)"
  using assms
  by (auto simp: run_body_def split: sum.splits prod.splits intro!: connect_same)

lemma cleanup_signals: "cleanup (w\<lparr>signals := a\<rparr>) r = cleanup w r"
  by (simp add: cleanup_def)

lemma run_same:
  assumes "a \<noteq> []" "b \<noteq> []"
  shows "same_run (run L (w\<lparr>signals := a\<rparr>) r) (run L (w\<lparr>signals := b\<rparr>) r)"
proof -
  obtain r1 t1 e1 where 1: "run_body L (w\<lparr>signals := a\<rparr>) r = (r1, t1, e1)"
    by (cases "run_body L (w\<lparr>signals := a\<rparr>) r") auto
  obtain r2 t2 e2 where 2: "run_body L (w\<lparr>signals := b\<rparr>) r = (r2, t2, e2)"
    by (cases "run_body L (w\<lparr>signals := b\<rparr>) r") auto
  from body_same[OF assms, of L w r] 1 2
  have s: "r1 = r2" "calls_of t1 = calls_of t2" "e1 = e2"
    by (simp_all add: same_run_def)
  show ?thesis
    using s by (cases e2) (simp_all add: run_def 1 2 same_run_def cleanup_signals calls_of_append)
qed

lemma run_steps_events: "set (run_steps steps) \<subseteq> insert LogError (fst ` set steps)"
  by (induction steps rule: run_steps.induct) auto

lemma count_event_append: "count_event e (a @ b) = count_event e a + count_event e b"
  by (simp add: count_event_def)

lemma count_event_Nil: "count_event e [] = 0"
  by (simp add: count_event_def)

lemma count_event_Cons: "count_event e (x # xs) = (if x = e then 1 else 0) + count_event e xs"
  by (simp add: count_event_def)

lemma count_event_absent: "e \<notin> set tr \<Longrightarrow> count_event e tr = 0"
  by (induction tr) (auto simp: count_event_def)

lemma cleanup_begins_once: "count_event CleanupBegin (snd (cleanup w r)) = 1"
proof -
  have a: "\<And>steps. CleanupBegin \<notin> fst ` set steps \<Longrightarrow> count_event CleanupBegin (run_steps steps) = 0"
    using run_steps_events by (intro count_event_absent) fastforce
  have b: "count_event CleanupBegin (isolated CleanupOnExit oc) = 0" for oc
    by (cases oc) (simp_all add: count_event_def)
  show ?thesis
    by (simp add: cleanup_def count_event_Cons count_event_Nil count_event_append a b)
qed

lemma wait_no_cleanup:
  "CleanupBegin \<in> set (fst (snd (wait_for_shutdown w r tr))) \<Longrightarrow> CleanupBegin \<in> set tr"
  by (auto simp: wait_for_shutdown_def Let_def split: if_splits)

lemma start_no_cleanup:
  "CleanupBegin \<in> set (fst (snd (start_system w r tr))) \<Longrightarrow> CleanupBegin \<in> set tr"
  by (auto simp: start_system_def split: if_splits dest!: wait_no_cleanup)

lemma prestart_no_cleanup:
  "CleanupBegin \<in> set (fst (snd (prestart_check w r tr))) \<Longrightarrow> CleanupBegin \<in> set tr"
  by (auto simp: prestart_check_def split: if_splits check_result.splits dest!: start_no_cleanup)

lemma build_no_cleanup:
  "CleanupBegin \<in> set (fst (snd (build_system w g r tr))) \<Longrightarrow> CleanupBegin \<in> set tr"
  by (auto simp: build_system_def Let_def split: if_splits sum.splits dest!: prestart_no_cleanup)

lemma connect_no_cleanup:
  "CleanupBegin \<in> set (fst (snd (connect_exchange L w d g r tr))) \<Longrightarrow> CleanupBegin \<in> set tr"
  by (auto simp: connect_exchange_def split: if_splits sum.splits dest!: build_no_cleanup)

lemma body_no_cleanup: "CleanupBegin \<notin> set (fst (snd (run_body L w r)))"
  by (auto simp: run_body_def split: if_splits sum.splits prod.splits dest!: connect_no_cleanup)

lemma run_cleans_up_once:
  "count_event CleanupBegin (fst (snd (run L w r))) = (if snd (snd (run L w r)) = Blocked then 0 else 1)"
proof -
  obtain r1 t1 e1 where b: "run_body L w r = (r1, t1, e1)"
    by (cases "run_body L w r") auto
  have "CleanupBegin \<notin> set t1"
    using body_no_cleanup[of L w r] b by simp
  then have z: "count_event CleanupBegin t1 = 0"
    by (rule count_event_absent)
  show ?thesis
    by (cases e1)
      (simp_all add: run_def b count_event_append count_event_Cons z cleanup_begins_once)
qed

text \<open>
  Claim C8. The signal handler only sets the shutdown event: a second delivery changes
  nothing (the handler is idempotent, and a no-op once the event is set), any number of
  deliveries leaves the runner as the first one does, every run that leaves the wait
  begins exactly one cleanup, and a run that receives several signals makes the same
  calls, ends the same way and leaves the same runner as the run that receives only the
  first: the later deliveries add log lines only.
\<close>

theorem handle_signal_idempotent:
  "handle_signal n (handle_signal m r) = handle_signal m r
   \<and> (shutdown_event r \<longrightarrow> handle_signal n r = r)
   \<and> (sigs \<noteq> [] \<longrightarrow> shutdown_event (fold handle_signal sigs r)
          \<and> fold handle_signal sigs r = handle_signal (hd sigs) r)
   \<and> count_event CleanupBegin (fst (snd (run L w r)))
        = (if snd (snd (run L w r)) = Blocked then 0 else 1)
   \<and> (sigs \<noteq> [] \<longrightarrow>
        same_run (run L (w\<lparr>signals := sigs\<rparr>) r) (run L (w\<lparr>signals := [hd sigs]\<rparr>) r))"
proof (intro conjI impI)
  show "handle_signal n (handle_signal m r) = handle_signal m r"
    by (rule handle_signal_twice)
  show "handle_signal n r = r" if "shutdown_event r"
    using that by (rule handle_signal_noop)
  show "shutdown_event (fold handle_signal sigs r)" if "sigs \<noteq> []"
    using that by (simp add: fold_handle_signal)
  show "fold handle_signal sigs r = handle_signal (hd sigs) r" if "sigs \<noteq> []"
    using that by (simp add: fold_handle_signal handle_signal_def)
  show "count_event CleanupBegin (fst (snd (run L w r)))
        = (if snd (snd (run L w r)) = Blocked then 0 else 1)"
    by (rule run_cleans_up_once)
  show "same_run (run L (w\<lparr>signals := sigs\<rparr>) r) (run L (w\<lparr>signals := [hd sigs]\<rparr>) r)"
    if "sigs \<noteq> []"
    using that by (intro run_same) simp_all
qed

theorem handle_signal_idempotent_witness:
  "fold handle_signal [15, 2, 15] init_runner = handle_signal 15 init_runner
   \<and> shutdown_event (handle_signal 15 init_runner)
   \<and> count_event CleanupBegin
        (fst (snd (run lib0 ((calm_world untagged_short_doc)\<lparr>signals := [15, 2, 15]\<rparr>) init_runner))) = 1
   \<and> calls_of (fst (snd (run lib0 ((calm_world untagged_short_doc)\<lparr>signals := [15, 2, 15]\<rparr>) init_runner)))
       = [CreateAdapter, Connect, BuildComponents, BuildCoordinator, CoordinatorStart,
          StatsTaskStart, StatsTaskCancel,
          CleanupBegin, CleanupOnExit, CoordinatorStop, Disconnect]"
proof -
  note t = handle_signal_idempotent[where r = init_runner and sigs = "[15, 2, 15]" and L = lib0
      and w = "calm_world untagged_short_doc"]
  note t' = handle_signal_idempotent[where r = init_runner and sigs = "[15, 2, 15]" and L = lib0
      and w = "(calm_world untagged_short_doc)\<lparr>signals := [15, 2, 15]\<rparr>"]
  have one: "(calm_world untagged_short_doc)\<lparr>signals := [15]\<rparr> = calm_world untagged_short_doc"
    by (simp add: calm_world_def)
  have r: "snd (run lib0 (calm_world untagged_short_doc) init_runner)
      = ([CreateAdapter, Connect, BuildComponents, BuildCoordinator, CoordinatorStart,
          StatsTaskStart, SignalLogged 15, StatsTaskCancel,
          CleanupBegin, CleanupOnExit, CoordinatorStop, Disconnect], Returned)"
    using untagged_run by simp
  have s: "same_run (run lib0 ((calm_world untagged_short_doc)\<lparr>signals := [15, 2, 15]\<rparr>) init_runner)
              (run lib0 (calm_world untagged_short_doc) init_runner)"
    using t one by simp
  then have e: "snd (snd (run lib0 ((calm_world untagged_short_doc)\<lparr>signals := [15, 2, 15]\<rparr>) init_runner))
      = Returned"
    using r by (simp add: same_run_def)
  have ne: "[15, 2, 15] \<noteq> ([] :: int list)" by simp
  from t[where n = 0 and m = 0] ne
  have ab: "shutdown_event (fold handle_signal [15, 2, 15] init_runner)
      \<and> fold handle_signal [15, 2, 15] init_runner = handle_signal (hd [15, 2, 15]) init_runner"
    by blast
  then have a: "fold handle_signal [15, 2, 15] init_runner = handle_signal 15 init_runner"
    by (simp del: fold_simps)
  from ab have b: "shutdown_event (handle_signal 15 init_runner)"
    unfolding a by blast
  have c: "count_event CleanupBegin
        (fst (snd (run lib0 ((calm_world untagged_short_doc)\<lparr>signals := [15, 2, 15]\<rparr>) init_runner))) = 1"
    using t' e by simp
  have d: "calls_of (fst (snd (run lib0 ((calm_world untagged_short_doc)\<lparr>signals := [15, 2, 15]\<rparr>) init_runner)))
       = [CreateAdapter, Connect, BuildComponents, BuildCoordinator, CoordinatorStart,
          StatsTaskStart, StatsTaskCancel,
          CleanupBegin, CleanupOnExit, CoordinatorStop, Disconnect]"
    using s r by (simp add: same_run_def calls_of_def)
  from a b c d show ?thesis by blast
qed

end
